theory Spec2Isabelle
  imports Main "HOL-Library.Word"
begin

section \<open>The blob and the outcome of an operation\<close>

text \<open>
  The sources hold two versions of \<^verbatim>\<open>File.cpp\<close>. Their \<open>File::Impl\<close> agree on the
  constructor, \<open>calc_size\<close>, \<open>get_string\<close>, the resolver and the trait indexes. One
  caches resolved partitions in an array of slots inside \<open>Impl\<close>
  (\<open>get_and_cache_partition\<close>); the other caches them in optional members of \<open>File\<close>
  (\<open>get_partition_with_cache\<close>) and resolves imported modules through an environment
  (\<open>get_imported_module\<close>). The model has the operations of both.

  The reader (\<^verbatim>\<open>File::Impl\<close>) works on a borrowed span of bytes,
  \<^verbatim>\<open>std::span<std::byte const> blob_\<close>. A span is a data pointer and a size; the model
  keeps the address \<open>data\<close> together with the bytes the span views, so \<open>blob_.size()\<close> is
  \<open>length (bytes b)\<close>. A pointer is an address (a natural number); every pointer the reader
  forms is \<open>blob_.data() + k\<close>.

  The reader dereferences raw pointers and never compares an offset with \<open>blob_.size()\<close>.
  A record it reads at an offset at or past the end of the span is made of what the memory
  after the span holds: \<open>beyond b k\<close> is the byte at \<open>blob_.data() + blob_.size() + k\<close>.
\<close>

type_synonym byte = "8 word"
type_synonym size_t = "64 word"
type_synonym pointer = nat

record BlobView =
  data :: pointer
  bytes :: "byte list"
  beyond :: "nat \<Rightarrow> byte"

text \<open>The byte at offset \<open>i\<close> from \<open>blob_.data()\<close>.\<close>

definition mem_at :: "BlobView \<Rightarrow> nat \<Rightarrow> byte" where
  "mem_at b i = (if i < length (bytes b) then bytes b ! i else beyond b (i - length (bytes b)))"

text \<open>
  The ways an operation ends other than by returning: the two exceptions the constructor
  throws, \<^verbatim>\<open>std::out_of_range\<close> of \<^verbatim>\<open>unordered_map::at\<close>, a failed
  \<^verbatim>\<open>assert\<close>, and what the model does not follow further: the scan of a string that
  finds no NUL before the end of the blob, an index past the end of the cache array, the
  dereference of a disengaged optional, a read below \<open>blob_.data()\<close> (no pointer the
  reader forms is there).
\<close>

datatype error =
    Invalid_argument string
  | Runtime_error string
  | Out_of_range
  | Assertion_failed
  | Undefined_behaviour

text \<open>
  An operation that reads the blob yields its outcome together with the offsets (from
  \<open>blob_.data()\<close>) of the bytes it has read, in the order of the reads.
\<close>

type_synonym 'a rd = "(error + 'a) \<times> nat list"

definition rd_ret :: "'a \<Rightarrow> 'a rd" where
  "rd_ret x = (Inr x, [])"

definition rd_throw :: "error \<Rightarrow> 'a rd" where
  "rd_throw e = (Inl e, [])"

definition rd_bind :: "'a rd \<Rightarrow> ('a \<Rightarrow> 'b rd) \<Rightarrow> 'b rd" where
  "rd_bind m f =
     (case fst m of
        Inl e \<Rightarrow> (Inl e, snd m)
      | Inr x \<Rightarrow> (fst (f x), snd m @ snd (f x)))"

text \<open>Dereferencing \<open>n\<close> bytes at address \<open>p\<close>: no bound is checked.\<close>

definition load :: "BlobView \<Rightarrow> pointer \<Rightarrow> nat \<Rightarrow> byte list rd" where
  "load b p n =
     (if data b \<le> p
      then (Inr (map (mem_at b) [p - data b ..< p - data b + n]),
            [p - data b ..< p - data b + n])
      else (Inl Undefined_behaviour, []))"

text \<open>
  A record type \<open>T\<close> of the format, as the templates use it: \<open>sizeof(T)\<close> and the reading of
  \<open>sizeof(T)\<close> bytes as a \<open>T\<close>. \<open>*p\<close> for a \<open>T const* p\<close> is \<open>load_obj\<close>.
\<close>

record 'a ctype =
  sizeof :: nat
  decode :: "byte list \<Rightarrow> 'a"

definition load_obj :: "'a ctype \<Rightarrow> BlobView \<Rightarrow> pointer \<Rightarrow> 'a rd" where
  "load_obj T b p = rd_bind (load b p (sizeof T)) (\<lambda>bs. rd_ret (decode T bs))"

text \<open>The elements of a span \<open>(p, n)\<close> of \<open>T\<close>, as a range-based \<open>for\<close> visits them.\<close>

fun load_elems :: "'a ctype \<Rightarrow> BlobView \<Rightarrow> pointer \<Rightarrow> nat \<Rightarrow> 'a list rd" where
  "load_elems T b p 0 = rd_ret []"
| "load_elems T b p (Suc n) =
     rd_bind (load_obj T b p) (\<lambda>x.
     rd_bind (load_elems T b (p + sizeof T) n) (\<lambda>xs.
     rd_ret (x # xs)))"

text \<open>
  A \<open>const char*\<close> read as a string (the conversion to \<^verbatim>\<open>std::string_view\<close> or
  \<^verbatim>\<open>std::string\<close>): the bytes from \<open>p\<close> up to the first NUL, which is read too. With no
  NUL before the end of the blob the scan runs on through the memory after it for as
  long as it meets no NUL; the model does not follow it there.
\<close>

definition c_str :: "BlobView \<Rightarrow> pointer \<Rightarrow> byte list rd" where
  "c_str b p =
     (if data b \<le> p \<and> 0 \<in> set (drop (p - data b) (bytes b))
      then (let s = takeWhile (\<lambda>c. c \<noteq> 0) (drop (p - data b) (bytes b))
            in (Inr s, [p - data b ..< p - data b + length s + 1]))
      else (Inl Undefined_behaviour, []))"

text \<open>A string literal of the source, as the bytes a \<open>string_view\<close> of it holds.\<close>

definition str :: "string \<Rightarrow> byte list" where
  "str s = map of_char s"

section \<open>The records of the format\<close>

text \<open>
  Modelled from the spec: \<^verbatim>\<open>ifc/File.h\<close> and \<^verbatim>\<open>ifc/Trait.h\<close>, which declare
  \<open>FileHeader\<close>, \<open>PartitionSummary\<close>, \<open>Sequence\<close>, \<open>AssociatedTrait\<close>, \<open>ModuleReference\<close>,
  the opaque scalars and \<open>raw_count\<close>, are not among the sources. The records carry the
  fields the sources use; a size, cardinality, offset or index is the unsigned integer
  its opaque scalar wraps (\<open>raw_count\<close> and the casts to the underlying type are the
  identity on it). The byte layout of each record is a parameter (\<open>config\<close> below).
\<close>

type_synonym ByteOffset = nat
type_synonym TextOffset = nat
type_synonym Cardinality = nat
type_synonym DeclIndex = nat
type_synonym AttrIndex = nat

record FileHeader =
  string_table_bytes :: ByteOffset
  string_table_size :: Cardinality
  global_scope :: nat
  toc :: ByteOffset
  partition_count :: Cardinality

record PartitionSummary =
  name :: TextOffset
  offset :: ByteOffset
  cardinality :: Cardinality
  entry_size :: nat

record Sequence =
  seq_start :: nat
  seq_cardinality :: nat

record ModuleReference =
  owner :: TextOffset
  partition :: TextOffset

text \<open>
  Modelled from the spec: \<open>PartitionSummary::size_bytes\<close> (declared in \<^verbatim>\<open>ifc/File.h\<close>) is
  the partition's byte size, entry size (bytes per element) times cardinality (element
  count), as a \<open>size_t\<close>.
\<close>

definition size_bytes :: "PartitionSummary \<Rightarrow> size_t" where
  "size_bytes p = of_nat (cardinality p) * of_nat (entry_size p)"

text \<open>
  Modelled from the spec: \<open>is_null\<close> on a \<open>TextOffset\<close> (declared with the type) holds of
  the null text offset, the zero offset.
\<close>

definition is_null :: "TextOffset \<Rightarrow> bool" where
  "is_null t = (t = 0)"

text \<open>
  What the build fixes and the sources do not show: the layout of the records read from
  the blob and whether \<^verbatim>\<open>assert\<close> is compiled in (no \<^verbatim>\<open>NDEBUG\<close>).
\<close>

record config =
  FileHeader_T :: "FileHeader ctype"
  PartitionSummary_T :: "PartitionSummary ctype"
  AttrTrait_T :: "(DeclIndex \<times> AttrIndex) ctype"
  TextTrait_T :: "(DeclIndex \<times> TextOffset) ctype"
  SeqTrait_T :: "(DeclIndex \<times> Sequence) ctype"
  ModuleReference_T :: "ModuleReference ctype"
  assertions :: bool

section \<open>File::Impl\<close>

definition CANONICAL_FILE_SIGNATURE :: "byte list" where
  "CANONICAL_FILE_SIGNATURE = [0x54, 0x51, 0x45, 0x1A]"

text \<open>A \<open>Partition<T, Index>\<close> and the cache's \<open>UntypedPartition\<close>: a data pointer and a length.\<close>

record Partition =
  pdata :: pointer
  psize :: nat

record UntypedPartition =
  udata :: pointer
  usize :: nat

text \<open>
  \<open>FilePartitionCache\<close>: an enumerator is its value. The enumeration has 110 slots
  before \<open>Num\<close>; \<open>ImportedModules\<close> and \<open>ExportedModules\<close> are the 108th and 109th. A data
  member \<open>x_\<close> of the source is the field \<open>m_x\<close> of the record.
\<close>

definition ImportedModules :: nat where
  "ImportedModules = 107"

definition ExportedModules :: nat where
  "ExportedModules = 108"

definition Num :: nat where
  "Num = 110"

record Impl =
  m_blob :: BlobView
  m_table_of_contents :: "byte list \<rightharpoonup> pointer"
  m_trait_deprecation_texts :: "(DeclIndex \<rightharpoonup> TextOffset) option"
  m_trait_declaration_attributes :: "(DeclIndex \<rightharpoonup> AttrIndex list) option"
  m_trait_friendship_of_class :: "(DeclIndex \<rightharpoonup> Sequence) option"
  m_cached_partitions :: "UntypedPartition option list"

text \<open>
  \<open>struct Structure { FileSignature signature; FileHeader header; }\<close> at \<open>blob_.data()\<close>:
  the signature is the first four bytes, the header the record at offset 4, and
  \<open>sizeof(Structure)\<close> is \<open>4 + sizeof(FileHeader)\<close>.
\<close>

definition structure_signature :: "Impl \<Rightarrow> byte list rd" where
  "structure_signature this = load (m_blob this) (data (m_blob this)) 4"

definition sizeof_Structure :: "config \<Rightarrow> nat" where
  "sizeof_Structure C = 4 + sizeof (FileHeader_T C)"

definition header :: "config \<Rightarrow> Impl \<Rightarrow> FileHeader rd" where
  "header C this = load_obj (FileHeader_T C) (m_blob this) (data (m_blob this) + 4)"

text \<open>
  \<open>get_raw_pointer(offset)\<close> is \<open>blob_.data() + offset\<close> in one version and
  \<open>&blob_[offset]\<close> in the other: the same address, formed without reading the blob and
  without comparing \<open>offset\<close> to its size.
\<close>

definition get_raw_pointer :: "Impl \<Rightarrow> ByteOffset \<Rightarrow> pointer" where
  "get_raw_pointer this off = data (m_blob this) + off"

definition get_pointer :: "Impl \<Rightarrow> ByteOffset \<Rightarrow> pointer" where
  "get_pointer this off = get_raw_pointer this off"

definition table_of_contents :: "config \<Rightarrow> Impl \<Rightarrow> Partition rd" where
  "table_of_contents C this =
     rd_bind (header C this) (\<lambda>h.
     rd_ret \<lparr>pdata = get_pointer this (toc h), psize = partition_count h\<rparr>)"

definition calc_size :: "config \<Rightarrow> Impl \<Rightarrow> size_t rd" where
  "calc_size C this =
     rd_bind (header C this) (\<lambda>h.
     rd_bind (table_of_contents C this) (\<lambda>t.
     rd_bind (load_elems (PartitionSummary_T C) (m_blob this) (pdata t) (psize t)) (\<lambda>ps.
     rd_ret (foldl (\<lambda>result p. result + size_bytes p)
       (of_nat (sizeof_Structure C) + of_nat (string_table_size h)
          + of_nat (psize t) * of_nat (sizeof (PartitionSummary_T C)))
       ps))))"

definition get_string :: "config \<Rightarrow> Impl \<Rightarrow> TextOffset \<Rightarrow> pointer rd" where
  "get_string C this index =
     rd_bind (header C this) (\<lambda>h.
     rd_ret (get_pointer this (string_table_bytes h) + index))"

text \<open>The string \<open>get_string(index)\<close> points to, where a caller reads it.\<close>

definition get_string_view :: "config \<Rightarrow> Impl \<Rightarrow> TextOffset \<Rightarrow> byte list rd" where
  "get_string_view C this index =
     rd_bind (get_string C this index) (\<lambda>s. c_str (m_blob this) s)"

text \<open>\<open>unordered_map::emplace\<close>: nothing is inserted when the key is there already.\<close>

definition emplace :: "('k \<rightharpoonup> 'v) \<Rightarrow> 'k \<Rightarrow> 'v \<Rightarrow> ('k \<rightharpoonup> 'v)" where
  "emplace m k v = (case m k of None \<Rightarrow> m(k \<mapsto> v) | Some _ \<Rightarrow> m)"

text \<open>
  The constructor's loop over \<open>table_of_contents()\<close>, from the descriptor at \<open>p\<close> for \<open>n\<close>
  descriptors: \<open>table_of_contents_.emplace(get_string(partition.name), &partition)\<close>.
\<close>

fun fill_table_of_contents :: "config \<Rightarrow> Impl \<Rightarrow> pointer \<Rightarrow> nat \<Rightarrow> Impl rd" where
  "fill_table_of_contents C this p 0 = rd_ret this"
| "fill_table_of_contents C this p (Suc n) =
     rd_bind (load_obj (PartitionSummary_T C) (m_blob this) p) (\<lambda>summary.
     rd_bind (get_string_view C this (name summary)) (\<lambda>key.
     fill_table_of_contents C
       (this\<lparr>m_table_of_contents := emplace (m_table_of_contents this) key p\<rparr>)
       (p + sizeof (PartitionSummary_T C)) n))"

definition Impl_init :: "BlobView \<Rightarrow> Impl" where
  "Impl_init blob =
     \<lparr>m_blob = blob, m_table_of_contents = Map.empty,
      m_trait_deprecation_texts = None, m_trait_declaration_attributes = None,
      m_trait_friendship_of_class = None, m_cached_partitions = replicate Num None\<rparr>"

definition Impl_ctor :: "config \<Rightarrow> BlobView \<Rightarrow> Impl rd" where
  "Impl_ctor C blob =
     rd_bind (structure_signature (Impl_init blob)) (\<lambda>signature.
     if signature \<noteq> CANONICAL_FILE_SIGNATURE
     then rd_throw (Invalid_argument ''corrupted file signature'')
     else
       rd_bind (calc_size C (Impl_init blob)) (\<lambda>n.
       if n \<noteq> of_nat (length (bytes blob))
       then rd_throw (Runtime_error ''corrupted file'')
       else
         rd_bind (table_of_contents C (Impl_init blob)) (\<lambda>t.
         fill_table_of_contents C (Impl_init blob) (pdata t) (psize t))))"

subsection \<open>The partition resolver\<close>

text \<open>
  \<open>get_partition<T, Index>(PartitionSummary const* partition)\<close>; the pointer is
  \<open>summary\<close> here, \<open>partition\<close> being a field of \<open>ModuleReference\<close>. The template's record
  type \<open>T\<close> is passed as its \<open>ctype\<close>; the index type plays no part at run time.
\<close>

definition get_partition_ptr :: "config \<Rightarrow> 'a ctype \<Rightarrow> Impl \<Rightarrow> pointer \<Rightarrow> Partition rd" where
  "get_partition_ptr C T this summary =
     rd_bind (load_obj (PartitionSummary_T C) (m_blob this) summary) (\<lambda>p.
     if assertions C \<and> entry_size p \<noteq> sizeof T
     then rd_throw Assertion_failed
     else rd_ret \<lparr>pdata = get_pointer this (offset p), psize = cardinality p\<rparr>)"

definition try_get_partition ::
  "config \<Rightarrow> 'a ctype \<Rightarrow> Impl \<Rightarrow> byte list \<Rightarrow> Partition option rd" where
  "try_get_partition C T this nm =
     (case m_table_of_contents this nm of
        None \<Rightarrow> rd_ret None
      | Some it \<Rightarrow> rd_bind (get_partition_ptr C T this it) (\<lambda>p. rd_ret (Some p)))"

text \<open>\<open>get_partition<T, Index>(std::string_view name)\<close>: \<open>table_of_contents_.at(name)\<close> throws.\<close>

definition get_partition :: "config \<Rightarrow> 'a ctype \<Rightarrow> Impl \<Rightarrow> byte list \<Rightarrow> Partition rd" where
  "get_partition C T this nm =
     (case m_table_of_contents this nm of
        None \<Rightarrow> rd_throw Out_of_range
      | Some it \<Rightarrow> get_partition_ptr C T this it)"

text \<open>
  \<open>get_and_cache_partition<T, Index>(name, cache_type)\<close>. The slot \<open>cache_type\<close> is the
  enumerator's value; an enumerator is below \<open>Num\<close>, the length of the array. The cache
  is \<open>mutable\<close>: the operation returns the \<open>Impl\<close> it leaves.
\<close>

definition get_and_cache_partition ::
  "config \<Rightarrow> 'a ctype \<Rightarrow> Impl \<Rightarrow> byte list \<Rightarrow> nat \<Rightarrow> (Partition \<times> Impl) rd" where
  "get_and_cache_partition C T this nm cache_type =
     (if length (m_cached_partitions this) \<le> cache_type then rd_throw Undefined_behaviour
      else
        (case m_cached_partitions this ! cache_type of
           Some cached \<Rightarrow> rd_ret (\<lparr>pdata = udata cached, psize = usize cached\<rparr>, this)
         | None \<Rightarrow>
             rd_bind
               (case m_table_of_contents this nm of
                  None \<Rightarrow> rd_throw Out_of_range
                | Some it \<Rightarrow> get_partition_ptr C T this it)
               (\<lambda>result.
                  rd_ret (result,
                    this\<lparr>m_cached_partitions := (m_cached_partitions this)
                      [cache_type := Some \<lparr>udata = pdata result, usize = psize result\<rparr>]\<rparr>))))"

subsection \<open>The trait indexes\<close>

text \<open>\<open>(*trait_declaration_attributes_)[attribute.decl].push_back(attribute.trait)\<close>\<close>

definition push_back_at ::
  "(DeclIndex \<rightharpoonup> AttrIndex list) \<Rightarrow> DeclIndex \<times> AttrIndex \<Rightarrow> (DeclIndex \<rightharpoonup> AttrIndex list)" where
  "push_back_at m attribute =
     m(fst attribute \<mapsto> (case m (fst attribute) of None \<Rightarrow> [] | Some v \<Rightarrow> v) @ [snd attribute])"

text \<open>\<open>(*map)[entry.decl] = entry.trait\<close>\<close>

definition assign_at :: "(DeclIndex \<rightharpoonup> 'v) \<Rightarrow> DeclIndex \<times> 'v \<Rightarrow> (DeclIndex \<rightharpoonup> 'v)" where
  "assign_at m entry = m(fst entry \<mapsto> snd entry)"

definition fill_decl_attributes :: "config \<Rightarrow> Impl \<Rightarrow> byte list \<Rightarrow> Impl rd" where
  "fill_decl_attributes C this nm =
     rd_bind (try_get_partition C (AttrTrait_T C) this nm) (\<lambda>attributes.
     case attributes of
       None \<Rightarrow> rd_ret this
     | Some p \<Rightarrow>
         rd_bind (load_elems (AttrTrait_T C) (m_blob this) (pdata p) (psize p)) (\<lambda>as.
         case m_trait_declaration_attributes this of
           None \<Rightarrow> rd_throw Undefined_behaviour
         | Some m \<Rightarrow>
             rd_ret (this\<lparr>m_trait_declaration_attributes := Some (foldl push_back_at m as)\<rparr>)))"

definition Impl_trait_declaration_attributes ::
  "config \<Rightarrow> Impl \<Rightarrow> ((DeclIndex \<rightharpoonup> AttrIndex list) \<times> Impl) rd" where
  "Impl_trait_declaration_attributes C this =
     (case m_trait_declaration_attributes this of
        Some m \<Rightarrow> rd_ret (m, this)
      | None \<Rightarrow>
          rd_bind (fill_decl_attributes C
                     (this\<lparr>m_trait_declaration_attributes := Some Map.empty\<rparr>)
                     (str ''trait.attribute'')) (\<lambda>this1.
          rd_bind (fill_decl_attributes C this1 (str ''.msvc.trait.decl-attrs'')) (\<lambda>this2.
          case m_trait_declaration_attributes this2 of
            None \<Rightarrow> rd_throw Undefined_behaviour
          | Some m \<Rightarrow> rd_ret (m, this2))))"

definition Impl_trait_deprecation_texts ::
  "config \<Rightarrow> Impl \<Rightarrow> ((DeclIndex \<rightharpoonup> TextOffset) \<times> Impl) rd" where
  "Impl_trait_deprecation_texts C this =
     (case m_trait_deprecation_texts this of
        Some m \<Rightarrow> rd_ret (m, this)
      | None \<Rightarrow>
          rd_bind (try_get_partition C (TextTrait_T C) this (str ''trait.deprecated''))
            (\<lambda>deprecations.
          case deprecations of
            None \<Rightarrow> rd_ret (Map.empty, this\<lparr>m_trait_deprecation_texts := Some Map.empty\<rparr>)
          | Some p \<Rightarrow>
              rd_bind (load_elems (TextTrait_T C) (m_blob this) (pdata p) (psize p)) (\<lambda>ds.
              rd_ret (foldl assign_at Map.empty ds,
                this\<lparr>m_trait_deprecation_texts := Some (foldl assign_at Map.empty ds)\<rparr>))))"

definition Impl_trait_friendship_of_class ::
  "config \<Rightarrow> Impl \<Rightarrow> ((DeclIndex \<rightharpoonup> Sequence) \<times> Impl) rd" where
  "Impl_trait_friendship_of_class C this =
     (case m_trait_friendship_of_class this of
        Some m \<Rightarrow> rd_ret (m, this)
      | None \<Rightarrow>
          rd_bind (try_get_partition C (SeqTrait_T C) this (str ''trait.friend''))
            (\<lambda>friendships.
          case friendships of
            None \<Rightarrow> rd_ret (Map.empty, this\<lparr>m_trait_friendship_of_class := Some Map.empty\<rparr>)
          | Some p \<Rightarrow>
              rd_bind (load_elems (SeqTrait_T C) (m_blob this) (pdata p) (psize p)) (\<lambda>fs.
              rd_ret (foldl assign_at Map.empty fs,
                this\<lparr>m_trait_friendship_of_class := Some (foldl assign_at Map.empty fs)\<rparr>))))"

subsection \<open>The layout of a blob\<close>

text \<open>
  What a blob holds, read off its bytes without any operation of the reader; the
  properties below are stated against it. The record of type \<open>T\<close> at offset \<open>off\<close> is
  the decoding of the \<open>sizeof(T)\<close> bytes from \<open>off\<close>; \<open>n\<close> records from \<open>off\<close> lie one after
  the other.
\<close>

definition record_at :: "'a ctype \<Rightarrow> BlobView \<Rightarrow> nat \<Rightarrow> 'a" where
  "record_at T b off = decode T (map (mem_at b) [off ..< off + sizeof T])"

definition records_at :: "'a ctype \<Rightarrow> BlobView \<Rightarrow> nat \<Rightarrow> nat \<Rightarrow> 'a list" where
  "records_at T b off n = map (\<lambda>i. record_at T b (off + i * sizeof T)) [0 ..< n]"

text \<open>
  The header is the record at offset 4; the descriptors of the table of contents are the
  \<open>partition_count\<close> records at offset \<open>toc\<close>; the string at an offset runs up to the first
  NUL; the name of a descriptor is the string at its text offset in the string table.
\<close>

definition header_of :: "config \<Rightarrow> BlobView \<Rightarrow> FileHeader" where
  "header_of C b = record_at (FileHeader_T C) b 4"

definition descriptors_of :: "config \<Rightarrow> BlobView \<Rightarrow> PartitionSummary list" where
  "descriptors_of C b =
     records_at (PartitionSummary_T C) b (toc (header_of C b)) (partition_count (header_of C b))"

definition string_at :: "BlobView \<Rightarrow> nat \<Rightarrow> byte list" where
  "string_at b off = takeWhile (\<lambda>c. c \<noteq> 0) (drop off (bytes b))"

definition names_of :: "config \<Rightarrow> BlobView \<Rightarrow> byte list list" where
  "names_of C b =
     map (\<lambda>d. string_at b (string_table_bytes (header_of C b) + name d)) (descriptors_of C b)"

text \<open>
  The records of the partition that the name map of a file lists under \<open>nm\<close>, read as
  \<open>T\<close>: the \<open>cardinality\<close> records at the \<open>offset\<close> of its descriptor, in this order; none
  when the name is not listed.
\<close>

definition partition_records :: "config \<Rightarrow> 'a ctype \<Rightarrow> Impl \<Rightarrow> byte list \<Rightarrow> 'a list" where
  "partition_records C T this nm =
     (case m_table_of_contents this nm of
        None \<Rightarrow> []
      | Some s \<Rightarrow>
          records_at T (m_blob this)
            (offset (record_at (PartitionSummary_T C) (m_blob this) (s - data (m_blob this))))
            (cardinality
              (record_at (PartitionSummary_T C) (m_blob this) (s - data (m_blob this)))))"

section \<open>File\<close>

text \<open>
  \<open>File::File(BlobView data, Environment* env)\<close>: the file owns its \<open>Impl\<close> and keeps the
  environment it resolves imported modules with (the older constructor has no
  environment; its \<open>m_env\<close> is \<open>()\<close>).
\<close>

record 'e File =
  m_env :: 'e
  m_impl :: Impl

definition File_ctor :: "config \<Rightarrow> BlobView \<Rightarrow> 'e \<Rightarrow> 'e File rd" where
  "File_ctor C blob env =
     rd_bind (Impl_ctor C blob) (\<lambda>i. rd_ret \<lparr>m_env = env, m_impl = i\<rparr>)"

text \<open>
  \<open>get_value<RetType, Value>(declaration, map)\<close>: the mapped value, or a value-initialised
  \<open>RetType\<close> (passed as \<open>dflt\<close>) when the key is not in the map.
\<close>

definition get_value :: "'v \<Rightarrow> DeclIndex \<Rightarrow> (DeclIndex \<rightharpoonup> 'v) \<Rightarrow> 'v" where
  "get_value dflt declaration m = (case m declaration of Some v \<Rightarrow> v | None \<Rightarrow> dflt)"

text \<open>
  The three trait queries of \<open>File\<close>. \<open>TextOffset{}\<close> is the null offset 0, an empty span is
  the empty list, \<open>Sequence{}\<close> has start 0 and cardinality 0.
\<close>

definition File_trait_deprecation_texts ::
  "config \<Rightarrow> 'e File \<Rightarrow> DeclIndex \<Rightarrow> (TextOffset \<times> 'e File) rd" where
  "File_trait_deprecation_texts C file declaration =
     rd_bind (Impl_trait_deprecation_texts C (m_impl file)) (\<lambda>r.
     rd_ret (get_value 0 declaration (fst r), file\<lparr>m_impl := snd r\<rparr>))"

definition File_trait_declaration_attributes ::
  "config \<Rightarrow> 'e File \<Rightarrow> DeclIndex \<Rightarrow> (AttrIndex list \<times> 'e File) rd" where
  "File_trait_declaration_attributes C file declaration =
     rd_bind (Impl_trait_declaration_attributes C (m_impl file)) (\<lambda>r.
     rd_ret (get_value [] declaration (fst r), file\<lparr>m_impl := snd r\<rparr>))"

definition File_trait_friendship_of_class ::
  "config \<Rightarrow> 'e File \<Rightarrow> DeclIndex \<Rightarrow> (Sequence \<times> 'e File) rd" where
  "File_trait_friendship_of_class C file declaration =
     rd_bind (Impl_trait_friendship_of_class C (m_impl file)) (\<lambda>r.
     rd_ret (get_value \<lparr>seq_start = 0, seq_cardinality = 0\<rparr> declaration (fst r),
       file\<lparr>m_impl := snd r\<rparr>))"

text \<open>
  \<open>File::get_partition_with_cache<T, Index>(cache, name)\<close> of \<^verbatim>\<open>File.cpp\<close>: the cache is
  an optional member of the file passed by reference; the operation returns the
  partition and what it leaves in the cache.
\<close>

definition get_partition_with_cache ::
  "config \<Rightarrow> 'a ctype \<Rightarrow> 'e File \<Rightarrow> Partition option \<Rightarrow> byte list
     \<Rightarrow> (Partition \<times> Partition option) rd" where
  "get_partition_with_cache C T file cache nm =
     (case cache of
        Some p \<Rightarrow> rd_ret (p, cache)
      | None \<Rightarrow>
          rd_bind (get_partition C T (m_impl file) nm) (\<lambda>result.
          rd_ret (result, Some result)))"

text \<open>
  The two accessors of the module references, \<open>File::imported_modules()\<close> and
  \<open>File::exported_modules()\<close>; every cached accessor has this shape, with the name of its
  partition, its record type and its slot.
\<close>

definition imported_modules :: "config \<Rightarrow> 'e File \<Rightarrow> (Partition \<times> 'e File) rd" where
  "imported_modules C file =
     rd_bind (get_and_cache_partition C (ModuleReference_T C) (m_impl file)
                (str ''module.imported'') ImportedModules) (\<lambda>r.
     rd_ret (fst r, file\<lparr>m_impl := snd r\<rparr>))"

definition exported_modules :: "config \<Rightarrow> 'e File \<Rightarrow> (Partition \<times> 'e File) rd" where
  "exported_modules C file =
     rd_bind (get_and_cache_partition C (ModuleReference_T C) (m_impl file)
                (str ''module.exported'') ExportedModules) (\<lambda>r.
     rd_ret (fst r, file\<lparr>m_impl := snd r\<rparr>))"

text \<open>
  \<open>File::get_imported_module(ModuleReference module)\<close>. The environment is its
  \<open>get_module_by_name\<close>; a \<open>const char*\<close> becomes the string it points to when it is
  passed as a name or put into a \<^verbatim>\<open>std::string\<close>.
\<close>

definition get_imported_module ::
  "config \<Rightarrow> (byte list \<Rightarrow> 'r) File \<Rightarrow> ModuleReference \<Rightarrow> 'r rd" where
  "get_imported_module C file module =
     (if is_null (owner module)
      then
        rd_bind (get_string_view C (m_impl file) (partition module)) (\<lambda>nm.
        rd_ret ((m_env file) nm))
      else
        rd_bind (get_string_view C (m_impl file) (owner module)) (\<lambda>nm.
        if \<not> is_null (partition module)
        then
          rd_bind (get_string_view C (m_impl file) (partition module)) (\<lambda>part.
          rd_ret ((m_env file) (nm @ str '':'' @ part)))
        else rd_ret ((m_env file) nm)))"

section \<open>A concrete layout and concrete blobs\<close>

text \<open>
  The theorems below hold for every layout. To evaluate them on concrete blobs this
  section fixes one: every field a little-endian 32-bit unsigned integer, the fields of
  a record in the order of its declaration above, assertions compiled in.
\<close>

fun le_nat :: "byte list \<Rightarrow> nat" where
  "le_nat [] = 0"
| "le_nat (b # bs) = unat b + 256 * le_nat bs"

definition u32_at :: "byte list \<Rightarrow> nat \<Rightarrow> nat" where
  "u32_at bs i = le_nat (take 4 (drop i bs))"

definition u32 :: "nat \<Rightarrow> byte list" where
  "u32 n = [of_nat n, of_nat (n div 256), of_nat (n div 65536), of_nat (n div 16777216)]"

definition example_config :: config where
  "example_config =
     \<lparr>FileHeader_T = \<lparr>sizeof = 20, decode = (\<lambda>bs.
        \<lparr>string_table_bytes = u32_at bs 0, string_table_size = u32_at bs 4,
         global_scope = u32_at bs 8, toc = u32_at bs 12, partition_count = u32_at bs 16\<rparr>)\<rparr>,
      PartitionSummary_T = \<lparr>sizeof = 16, decode = (\<lambda>bs.
        \<lparr>name = u32_at bs 0, offset = u32_at bs 4,
         cardinality = u32_at bs 8, entry_size = u32_at bs 12\<rparr>)\<rparr>,
      AttrTrait_T = \<lparr>sizeof = 8, decode = (\<lambda>bs. (u32_at bs 0, u32_at bs 4))\<rparr>,
      TextTrait_T = \<lparr>sizeof = 8, decode = (\<lambda>bs. (u32_at bs 0, u32_at bs 4))\<rparr>,
      SeqTrait_T = \<lparr>sizeof = 12, decode = (\<lambda>bs.
        (u32_at bs 0, \<lparr>seq_start = u32_at bs 4, seq_cardinality = u32_at bs 8\<rparr>))\<rparr>,
      ModuleReference_T = \<lparr>sizeof = 8, decode = (\<lambda>bs.
        \<lparr>owner = u32_at bs 0, partition = u32_at bs 4\<rparr>)\<rparr>,
      assertions = True\<rparr>"

text \<open>
  Scenario S2: a blob whose byte 0 is \<open>0xFF\<close>, at address 4096. In every blob of this
  section the memory after the span holds zeros.
\<close>

definition blob_S2 :: BlobView where
  "blob_S2 =
     \<lparr>data = 4096,
      bytes = [0xFF, 0x51, 0x45, 0x1A] @ u32 24 @ u32 0 @ u32 0 @ u32 24 @ u32 0,
      beyond = (\<lambda>k. 0)\<rparr>"

text \<open>
  Scenario S1 (no partition, an empty string table) with one byte appended: 25 bytes,
  where the sizes add up to 24.
\<close>

definition blob_S1_longer :: BlobView where
  "blob_S1_longer =
     \<lparr>data = 4096,
      bytes = [0x54, 0x51, 0x45, 0x1A] @ u32 24 @ u32 0 @ u32 0 @ u32 24 @ u32 0 @ [0],
      beyond = (\<lambda>k. 0)\<rparr>"

text \<open>
  Scenarios S4 to S6 in one blob of 156 bytes at address 4096: the string table at offset
  24 holds the empty string (text offset 0), \<open>trait.attribute\<close> (1),
  \<open>.msvc.trait.decl-attrs\<close> (17), \<open>std\<close> (40) and \<open>module.imported\<close> (44);
  \<open>trait.attribute\<close> at offset 84 lists (decl 7, attr 11), \<open>.msvc.trait.decl-attrs\<close> at
  offset 92 lists (decl 7, attr 22), \<open>module.imported\<close> at offset 100 holds the reference
  with no owner and partition \<open>std\<close>; the table of contents is at offset 108. There is no
  \<open>trait.deprecated\<close>. \<open>impl_S4\<close> is the \<open>Impl\<close> the constructor builds from it.
\<close>

definition blob_S4 :: BlobView where
  "blob_S4 =
     \<lparr>data = 4096,
      bytes = [0x54, 0x51, 0x45, 0x1A]
        @ u32 24 @ u32 60 @ u32 0 @ u32 108 @ u32 3
        @ [0] @ str ''trait.attribute'' @ [0] @ str ''.msvc.trait.decl-attrs'' @ [0]
        @ str ''std'' @ [0] @ str ''module.imported'' @ [0]
        @ u32 7 @ u32 11
        @ u32 7 @ u32 22
        @ u32 0 @ u32 40
        @ u32 1 @ u32 84 @ u32 1 @ u32 8
        @ u32 17 @ u32 92 @ u32 1 @ u32 8
        @ u32 44 @ u32 100 @ u32 1 @ u32 8,
      beyond = (\<lambda>k. 0)\<rparr>"

definition impl_S4 :: Impl where
  "impl_S4 =
     \<lparr>m_blob = blob_S4,
      m_table_of_contents =
        [str ''trait.attribute'' \<mapsto> 4204, str ''.msvc.trait.decl-attrs'' \<mapsto> 4220,
         str ''module.imported'' \<mapsto> 4236],
      m_trait_deprecation_texts = None, m_trait_declaration_attributes = None,
      m_trait_friendship_of_class = None, m_cached_partitions = replicate Num None\<rparr>"

text \<open>
  \<open>blob_S4\<close> cut short by its last byte (155 bytes), and \<open>blob_S4\<close> with the
  \<open>partition_count\<close> of its header (the byte at offset 20) changed from 3 to 4.
\<close>

definition blob_S4_short :: BlobView where
  "blob_S4_short = blob_S4\<lparr>bytes := butlast (bytes blob_S4)\<rparr>"

definition blob_S4_count4 :: BlobView where
  "blob_S4_count4 = blob_S4\<lparr>bytes := take 20 (bytes blob_S4) @ [4] @ drop 21 (bytes blob_S4)\<rparr>"

text \<open>
  A blob of 152 bytes at address 4096 with two trait partitions of several records: the
  string table at offset 24 holds the empty string, \<open>trait.attribute\<close> (text offset 1) and
  \<open>.msvc.trait.decl-attrs\<close> (17); \<open>trait.attribute\<close> at offset 64 lists (decl 7, attr 11),
  (8, 33), (7, 12), (7, 11); \<open>.msvc.trait.decl-attrs\<close> at offset 96 lists (9, 44), (7, 22),
  (7, 11); the table of contents is at offset 120. \<open>impl_attrs\<close> is the \<open>Impl\<close> the
  constructor builds from it.
\<close>

definition blob_attrs :: BlobView where
  "blob_attrs =
     \<lparr>data = 4096,
      bytes = [0x54, 0x51, 0x45, 0x1A]
        @ u32 24 @ u32 40 @ u32 0 @ u32 120 @ u32 2
        @ [0] @ str ''trait.attribute'' @ [0] @ str ''.msvc.trait.decl-attrs'' @ [0]
        @ u32 7 @ u32 11 @ u32 8 @ u32 33 @ u32 7 @ u32 12 @ u32 7 @ u32 11
        @ u32 9 @ u32 44 @ u32 7 @ u32 22 @ u32 7 @ u32 11
        @ u32 1 @ u32 64 @ u32 4 @ u32 8
        @ u32 17 @ u32 96 @ u32 3 @ u32 8,
      beyond = (\<lambda>k. 0)\<rparr>"

definition impl_attrs :: Impl where
  "impl_attrs =
     \<lparr>m_blob = blob_attrs,
      m_table_of_contents =
        [str ''trait.attribute'' \<mapsto> 4216, str ''.msvc.trait.decl-attrs'' \<mapsto> 4232],
      m_trait_deprecation_texts = None, m_trait_declaration_attributes = None,
      m_trait_friendship_of_class = None, m_cached_partitions = replicate Num None\<rparr>"

section \<open>Outcomes of composed reads\<close>

lemma fst_rd_bind:
  "fst (rd_bind m f) = (case fst m of Inl e \<Rightarrow> Inl e | Inr x \<Rightarrow> fst (f x))"
  by (simp add: rd_bind_def split: sum.splits)

lemma fst_rd_ret: "fst (rd_ret x) = Inr x"
  by (simp add: rd_ret_def)

lemma fst_rd_throw: "fst (rd_throw e) = Inl e"
  by (simp add: rd_throw_def)

lemma rd_bind_Inr:
  "fst (rd_bind m f) = Inr y \<longleftrightarrow> (\<exists>x. fst m = Inr x \<and> fst (f x) = Inr y)"
  by (simp add: fst_rd_bind split: sum.splits)

lemma load_elems_numeral:
  "load_elems T b p (numeral k) =
     rd_bind (load_obj T b p) (\<lambda>x.
     rd_bind (load_elems T b (p + sizeof T) (pred_numeral k)) (\<lambda>xs.
     rd_ret (x # xs)))"
  by (simp add: numeral_eq_Suc)

lemma blob_Impl_init: "m_blob (Impl_init blob) = blob"
  by (simp add: Impl_init_def)

section \<open>Reads and the layout of the blob\<close>

lemma map_mem_at_in_blob:
  assumes "j \<le> length (bytes b)"
  shows "map (mem_at b) [i..<j] = take (j - i) (drop i (bytes b))"
  using assms by (intro nth_equalityI) (auto simp: mem_at_def)

lemma map_mem_at_padded:
  assumes "\<And>k. beyond b k = c"
  shows "map (mem_at b) [i..<j] = take (j - i) (drop i (bytes b @ replicate j c))"
  using assms by (intro nth_equalityI) (auto simp: mem_at_def nth_append)

lemma load_in_blob:
  assumes "data b \<le> p" and "p - data b + n \<le> length (bytes b)"
  shows "load b p n =
           (Inr (take n (drop (p - data b) (bytes b))), [p - data b ..< p - data b + n])"
  using assms by (simp add: load_def map_mem_at_in_blob)

lemma record_at_in_blob:
  "off + sizeof T \<le> length (bytes b) \<Longrightarrow>
   record_at T b off = decode T (take (sizeof T) (drop off (bytes b)))"
  by (simp add: record_at_def map_mem_at_in_blob)

lemma record_at_padded:
  "(\<And>k. beyond b k = c) \<Longrightarrow>
   record_at T b off =
     decode T (take (sizeof T) (drop off (bytes b @ replicate (off + sizeof T) c)))"
  by (simp add: record_at_def map_mem_at_padded)

lemma load_obj_record_at:
  "data b \<le> p \<Longrightarrow> load_obj T b p =
     (Inr (record_at T b (p - data b)), [p - data b ..< p - data b + sizeof T])"
  by (simp add: load_obj_def load_def rd_bind_def rd_ret_def record_at_def)

lemma records_at_Suc:
  "records_at T b off (Suc n) = record_at T b off # records_at T b (off + sizeof T) n"
proof -
  have "[0..<Suc n] = 0 # map Suc [0..<n]"
    by (simp add: upt_conv_Cons map_Suc_upt del: upt_Suc)
  then show ?thesis
    by (simp add: records_at_def comp_def add.assoc del: upt_Suc)
qed

lemma load_elems_records_at:
  "data b \<le> p \<Longrightarrow> fst (load_elems T b p n) = Inr (records_at T b (p - data b) n)"
proof (induction n arbitrary: p)
  case 0
  then show ?case by (simp add: fst_rd_ret records_at_def)
next
  case (Suc n)
  from Suc.prems have "data b \<le> p + sizeof T" by simp
  from Suc.IH [OF this] Suc.prems show ?case
    by (simp add: fst_rd_bind fst_rd_ret load_obj_record_at records_at_Suc)
qed

lemma header_header_of:
  "header C this =
     (Inr (header_of C (m_blob this)), [4..<4 + sizeof (FileHeader_T C)])"
  by (simp add: header_def header_of_def load_obj_record_at)

section \<open>The example blobs, evaluated\<close>

lemma data_S4: "data blob_S4 = 4096"
  by (simp add: blob_S4_def)

lemma bytes_S4:
  "bytes blob_S4 =
     [84, 81, 69, 26,
      24, 0, 0, 0, 60, 0, 0, 0, 0, 0, 0, 0, 108, 0, 0, 0, 3, 0, 0, 0,
      0, 116, 114, 97, 105, 116, 46, 97, 116, 116, 114, 105, 98, 117, 116, 101, 0,
      46, 109, 115, 118, 99, 46, 116, 114, 97, 105, 116, 46, 100, 101, 99, 108, 45,
      97, 116, 116, 114, 115, 0,
      115, 116, 100, 0,
      109, 111, 100, 117, 108, 101, 46, 105, 109, 112, 111, 114, 116, 101, 100, 0,
      7, 0, 0, 0, 11, 0, 0, 0,
      7, 0, 0, 0, 22, 0, 0, 0,
      0, 0, 0, 0, 40, 0, 0, 0,
      1, 0, 0, 0, 84, 0, 0, 0, 1, 0, 0, 0, 8, 0, 0, 0,
      17, 0, 0, 0, 92, 0, 0, 0, 1, 0, 0, 0, 8, 0, 0, 0,
      44, 0, 0, 0, 100, 0, 0, 0, 1, 0, 0, 0, 8, 0, 0, 0]"
  by (simp add: blob_S4_def u32_def str_def)

lemma header_S4:
  "fst (header example_config (Impl_init blob_S4)) =
     Inr \<lparr>string_table_bytes = 24, string_table_size = 60, global_scope = 0,
          toc = 108, partition_count = 3\<rparr>"
  by (simp add: header_def load_obj_def fst_rd_bind fst_rd_ret load_in_blob blob_Impl_init
      example_config_def u32_at_def data_S4 bytes_S4)

lemma toc_S4:
  "fst (load_elems (PartitionSummary_T example_config) blob_S4 (4096 + 108) 3) =
     Inr [\<lparr>name = 1, offset = 84, cardinality = 1, entry_size = 8\<rparr>,
          \<lparr>name = 17, offset = 92, cardinality = 1, entry_size = 8\<rparr>,
          \<lparr>name = 44, offset = 100, cardinality = 1, entry_size = 8\<rparr>]"
  by (simp add: load_elems_numeral load_obj_def fst_rd_bind fst_rd_ret load_in_blob
      example_config_def u32_at_def data_S4 bytes_S4)

lemma calc_size_S4: "fst (calc_size example_config (Impl_init blob_S4)) = Inr 156"
  using header_S4 toc_S4
  by (simp add: calc_size_def table_of_contents_def fst_rd_bind fst_rd_ret blob_Impl_init
      get_pointer_def get_raw_pointer_def data_S4 sizeof_Structure_def size_bytes_def)
     (simp add: example_config_def)

lemma fill_table_of_contents_numeral:
  "fill_table_of_contents C this p (numeral k) =
     rd_bind (load_obj (PartitionSummary_T C) (m_blob this) p) (\<lambda>summary.
     rd_bind (get_string_view C this (name summary)) (\<lambda>key.
     fill_table_of_contents C
       (this\<lparr>m_table_of_contents := emplace (m_table_of_contents this) key p\<rparr>)
       (p + sizeof (PartitionSummary_T C)) (pred_numeral k)))"
  by (simp add: numeral_eq_Suc)

lemma header_blob: "m_blob this = m_blob this' \<Longrightarrow> header C this = header C this'"
  by (simp add: header_def)

lemma get_string_S4:
  "m_blob this = blob_S4 \<Longrightarrow> fst (get_string example_config this t) = Inr (4120 + t)"
  using header_S4 header_blob [of this "Impl_init blob_S4" example_config]
  by (simp add: get_string_def fst_rd_bind fst_rd_ret get_pointer_def get_raw_pointer_def
      blob_Impl_init data_S4)

lemma c_str_S4_0: "fst (c_str blob_S4 4120) = Inr []"
  by (simp add: c_str_def data_S4 bytes_S4)

lemma c_str_S4_1: "fst (c_str blob_S4 4121) = Inr (str ''trait.attribute'')"
  by (simp add: c_str_def data_S4 bytes_S4 str_def)

lemma c_str_S4_17: "fst (c_str blob_S4 4137) = Inr (str ''.msvc.trait.decl-attrs'')"
  by (simp add: c_str_def data_S4 bytes_S4 str_def)

lemma c_str_S4_40: "fst (c_str blob_S4 4160) = Inr (str ''std'')"
  by (simp add: c_str_def data_S4 bytes_S4 str_def)

lemma c_str_S4_44: "fst (c_str blob_S4 4164) = Inr (str ''module.imported'')"
  by (simp add: c_str_def data_S4 bytes_S4 str_def)

lemma get_string_view_S4:
  assumes "m_blob this = blob_S4"
  shows "fst (get_string_view example_config this 0) = Inr []"
    and "fst (get_string_view example_config this (Suc 0)) = Inr (str ''trait.attribute'')"
    and "fst (get_string_view example_config this 17) = Inr (str ''.msvc.trait.decl-attrs'')"
    and "fst (get_string_view example_config this 40) = Inr (str ''std'')"
    and "fst (get_string_view example_config this 44) = Inr (str ''module.imported'')"
  using assms
  by (simp_all add: get_string_view_def fst_rd_bind get_string_S4 c_str_S4_0 c_str_S4_1
      c_str_S4_17 c_str_S4_40 c_str_S4_44)

lemma summary_S4:
  "fst (load_obj (PartitionSummary_T example_config) blob_S4 4204) =
     Inr \<lparr>name = 1, offset = 84, cardinality = 1, entry_size = 8\<rparr>"
  "fst (load_obj (PartitionSummary_T example_config) blob_S4 4220) =
     Inr \<lparr>name = 17, offset = 92, cardinality = 1, entry_size = 8\<rparr>"
  "fst (load_obj (PartitionSummary_T example_config) blob_S4 4236) =
     Inr \<lparr>name = 44, offset = 100, cardinality = 1, entry_size = 8\<rparr>"
  by (simp_all add: load_obj_def fst_rd_bind fst_rd_ret load_in_blob
      example_config_def u32_at_def data_S4 bytes_S4)

lemma sizeof_example:
  "sizeof (FileHeader_T example_config) = 20"
  "sizeof (PartitionSummary_T example_config) = 16"
  "sizeof (AttrTrait_T example_config) = 8"
  "sizeof (TextTrait_T example_config) = 8"
  "sizeof (SeqTrait_T example_config) = 12"
  "sizeof (ModuleReference_T example_config) = 8"
  "assertions example_config"
  by (simp_all add: example_config_def)

lemma names_S4:
  "str ''trait.attribute'' \<noteq> str ''.msvc.trait.decl-attrs''"
  "str ''trait.attribute'' \<noteq> str ''module.imported''"
  "str ''.msvc.trait.decl-attrs'' \<noteq> str ''module.imported''"
  "str ''.msvc.trait.decl-attrs'' \<noteq> str ''trait.attribute''"
  "str ''module.imported'' \<noteq> str ''trait.attribute''"
  "str ''module.imported'' \<noteq> str ''.msvc.trait.decl-attrs''"
  by (simp_all add: str_def)

lemma Impl_ctor_S4: "fst (Impl_ctor example_config blob_S4) = Inr impl_S4"
proof -
  have sig: "fst (structure_signature (Impl_init blob_S4)) = Inr CANONICAL_FILE_SIGNATURE"
    by (simp add: structure_signature_def load_in_blob blob_Impl_init data_S4 bytes_S4
        CANONICAL_FILE_SIGNATURE_def)
  have len: "length (bytes blob_S4) = 156"
    by (simp add: bytes_S4)
  have t: "fst (table_of_contents example_config (Impl_init blob_S4))
             = Inr \<lparr>pdata = 4204, psize = 3\<rparr>"
    using header_S4
    by (simp add: table_of_contents_def fst_rd_bind fst_rd_ret get_pointer_def
        get_raw_pointer_def blob_Impl_init data_S4)
  have fill: "fst (fill_table_of_contents example_config (Impl_init blob_S4) 4204 3)
                = Inr impl_S4"
    by (simp add: fill_table_of_contents_numeral fst_rd_bind fst_rd_ret summary_S4
        get_string_view_S4 blob_Impl_init sizeof_example emplace_def names_S4)
       (simp add: Impl_init_def impl_S4_def names_S4)
  show ?thesis
    using sig calc_size_S4 len t fill
    by (simp add: Impl_ctor_def fst_rd_bind)
qed

lemma toc_impl_S4:
  "m_table_of_contents impl_S4 (str ''trait.attribute'') = Some 4204"
  "m_table_of_contents impl_S4 (str ''.msvc.trait.decl-attrs'') = Some 4220"
  "m_table_of_contents impl_S4 (str ''module.imported'') = Some 4236"
  "m_table_of_contents impl_S4 (str ''trait.deprecated'') = None"
  by (simp_all add: impl_S4_def names_S4) (simp add: str_def)

lemma blob_impl_S4: "m_blob impl_S4 = blob_S4"
  by (simp add: impl_S4_def)

section \<open>Opening a file: the signature check\<close>

text \<open>
  Claim C1. For every blob whose first four bytes differ from the canonical signature
  \<open>54 51 45 1A\<close>, constructing a \<open>File\<close> fails with the exception
  \<open>std::invalid_argument("corrupted file signature")\<close>, and the only bytes of the blob read
  before the failure are those at offsets 0 to 3. (A blob has first four bytes when it
  has at least four bytes; on a shorter one the comparison reads past the span.)
\<close>

theorem open_bad_signature:
  assumes "4 \<le> length (bytes blob)"
    and "take 4 (bytes blob) \<noteq> CANONICAL_FILE_SIGNATURE"
  shows "File_ctor C blob env =
           (Inl (Invalid_argument ''corrupted file signature''), [0, 1, 2, 3])"
proof -
  have "structure_signature (Impl_init blob) = (Inr (take 4 (bytes blob)), [0..<4])"
    using assms(1) by (simp add: structure_signature_def blob_Impl_init load_in_blob)
  moreover have "[0..<4] = [0, 1, 2, 3 :: nat]"
    by (simp add: upt_rec)
  ultimately show ?thesis
    using assms(2)
    by (simp add: File_ctor_def Impl_ctor_def rd_bind_def rd_throw_def)
qed

theorem open_bad_signature_witness:
  "4 \<le> length (bytes blob_S2) \<and> take 4 (bytes blob_S2) \<noteq> CANONICAL_FILE_SIGNATURE
   \<and> File_ctor example_config blob_S2 () =
         (Inl (Invalid_argument ''corrupted file signature''), [0, 1, 2, 3])"
proof -
  have a: "4 \<le> length (bytes blob_S2)"
    by (simp add: blob_S2_def u32_def)
  have b: "take 4 (bytes blob_S2) \<noteq> CANONICAL_FILE_SIGNATURE"
    by (simp add: blob_S2_def CANONICAL_FILE_SIGNATURE_def)
  show ?thesis
    using a b open_bad_signature [OF a b, of example_config "()"] by simp
qed

section \<open>Opening a file: the size check\<close>

lemma foldl_size_bytes:
  "foldl (\<lambda>result p. result + size_bytes p) a ps = a + sum_list (map size_bytes ps)"
  by (induction ps arbitrary: a) (simp_all add: add.assoc)

lemma sum_size_bytes:
  "sum_list (map size_bytes ps) =
     of_nat (sum_list (map (\<lambda>p. cardinality p * entry_size p) ps))"
  by (induction ps) (simp_all add: size_bytes_def)

lemma table_of_contents_header_of:
  "fst (table_of_contents C this) =
     Inr \<lparr>pdata = data (m_blob this) + toc (header_of C (m_blob this)),
          psize = partition_count (header_of C (m_blob this))\<rparr>"
  by (simp add: table_of_contents_def fst_rd_bind fst_rd_ret header_header_of get_pointer_def
      get_raw_pointer_def)

lemma calc_size_layout:
  "fst (calc_size C this) =
     Inr (of_nat (4 + sizeof (FileHeader_T C) + string_table_size (header_of C (m_blob this))
            + partition_count (header_of C (m_blob this)) * sizeof (PartitionSummary_T C)
            + sum_list (map (\<lambda>d. cardinality d * entry_size d)
                (descriptors_of C (m_blob this)))))"
  by (simp add: calc_size_def fst_rd_bind fst_rd_ret header_header_of
      table_of_contents_header_of load_elems_records_at descriptors_of_def foldl_size_bytes
      sum_size_bytes sizeof_Structure_def)

lemma structure_signature_ok:
  "4 \<le> length (bytes blob) \<Longrightarrow>
   fst (structure_signature (Impl_init blob)) = Inr (take 4 (bytes blob))"
  by (simp add: structure_signature_def load_in_blob blob_Impl_init)

lemma fill_table_of_contents_not_runtime_error:
  "fst (fill_table_of_contents C this p n) \<noteq> Inl (Runtime_error s)"
proof (induction n arbitrary: this p)
  case 0
  then show ?case by (simp add: fst_rd_ret)
next
  case (Suc n)
  then show ?case
    by (auto simp: fst_rd_bind load_obj_def load_def get_string_view_def get_string_def
        header_def c_str_def fst_rd_ret Let_def split: sum.splits if_splits)
qed

lemma records_at_numeral:
  "records_at T b off (numeral k) =
     record_at T b off # records_at T b (off + sizeof T) (pred_numeral k)"
  by (simp add: numeral_eq_Suc records_at_Suc)

lemma records_at_0: "records_at T b off 0 = []"
  by (simp add: records_at_def)

lemma decode_example:
  "decode (FileHeader_T example_config) bs =
     \<lparr>string_table_bytes = u32_at bs 0, string_table_size = u32_at bs 4,
      global_scope = u32_at bs 8, toc = u32_at bs 12, partition_count = u32_at bs 16\<rparr>"
  "decode (PartitionSummary_T example_config) bs =
     \<lparr>name = u32_at bs 0, offset = u32_at bs 4,
      cardinality = u32_at bs 8, entry_size = u32_at bs 12\<rparr>"
  "decode (AttrTrait_T example_config) bs = (u32_at bs 0, u32_at bs 4)"
  by (simp_all add: example_config_def)

lemma le_nat_zeros: "le_nat (replicate n 0) = 0"
  by (induction n) simp_all

lemma data_attrs: "data blob_attrs = 4096"
  by (simp add: blob_attrs_def)

lemma bytes_attrs:
  "bytes blob_attrs =
     [84, 81, 69, 26,
      24, 0, 0, 0, 40, 0, 0, 0, 0, 0, 0, 0, 120, 0, 0, 0, 2, 0, 0, 0,
      0, 116, 114, 97, 105, 116, 46, 97, 116, 116, 114, 105, 98, 117, 116, 101, 0,
      46, 109, 115, 118, 99, 46, 116, 114, 97, 105, 116, 46, 100, 101, 99, 108, 45,
      97, 116, 116, 114, 115, 0,
      7, 0, 0, 0, 11, 0, 0, 0, 8, 0, 0, 0, 33, 0, 0, 0,
      7, 0, 0, 0, 12, 0, 0, 0, 7, 0, 0, 0, 11, 0, 0, 0,
      9, 0, 0, 0, 44, 0, 0, 0, 7, 0, 0, 0, 22, 0, 0, 0, 7, 0, 0, 0, 11, 0, 0, 0,
      1, 0, 0, 0, 64, 0, 0, 0, 4, 0, 0, 0, 8, 0, 0, 0,
      17, 0, 0, 0, 96, 0, 0, 0, 3, 0, 0, 0, 8, 0, 0, 0]"
  by (simp add: blob_attrs_def u32_def str_def)

lemma header_of_attrs:
  "header_of example_config blob_attrs =
     \<lparr>string_table_bytes = 24, string_table_size = 40, global_scope = 0,
      toc = 120, partition_count = 2\<rparr>"
  by (simp add: header_of_def record_at_in_blob sizeof_example decode_example u32_at_def
      bytes_attrs)

lemma descriptors_of_attrs:
  "descriptors_of example_config blob_attrs =
     [\<lparr>name = 1, offset = 64, cardinality = 4, entry_size = 8\<rparr>,
      \<lparr>name = 17, offset = 96, cardinality = 3, entry_size = 8\<rparr>]"
  by (simp add: descriptors_of_def header_of_attrs records_at_numeral records_at_Suc records_at_0
      record_at_in_blob sizeof_example decode_example u32_at_def bytes_attrs)

lemma data_S1_longer: "data blob_S1_longer = 4096"
  by (simp add: blob_S1_longer_def)

lemma bytes_S1_longer:
  "bytes blob_S1_longer =
     [84, 81, 69, 26,
      24, 0, 0, 0, 0, 0, 0, 0, 0, 0, 0, 0, 24, 0, 0, 0, 0, 0, 0, 0,
      0]"
  by (simp add: blob_S1_longer_def u32_def)

lemma header_of_S1_longer:
  "header_of example_config blob_S1_longer =
     \<lparr>string_table_bytes = 24, string_table_size = 0, global_scope = 0,
      toc = 24, partition_count = 0\<rparr>"
  by (simp add: header_of_def record_at_in_blob sizeof_example decode_example u32_at_def
      bytes_S1_longer)

lemma descriptors_of_S1_longer: "descriptors_of example_config blob_S1_longer = []"
  by (simp add: descriptors_of_def header_of_S1_longer records_at_0)

lemma bytes_S4_short:
  "bytes blob_S4_short =
     [84, 81, 69, 26,
      24, 0, 0, 0, 60, 0, 0, 0, 0, 0, 0, 0, 108, 0, 0, 0, 3, 0, 0, 0,
      0, 116, 114, 97, 105, 116, 46, 97, 116, 116, 114, 105, 98, 117, 116, 101, 0,
      46, 109, 115, 118, 99, 46, 116, 114, 97, 105, 116, 46, 100, 101, 99, 108, 45,
      97, 116, 116, 114, 115, 0,
      115, 116, 100, 0,
      109, 111, 100, 117, 108, 101, 46, 105, 109, 112, 111, 114, 116, 101, 100, 0,
      7, 0, 0, 0, 11, 0, 0, 0,
      7, 0, 0, 0, 22, 0, 0, 0,
      0, 0, 0, 0, 40, 0, 0, 0,
      1, 0, 0, 0, 84, 0, 0, 0, 1, 0, 0, 0, 8, 0, 0, 0,
      17, 0, 0, 0, 92, 0, 0, 0, 1, 0, 0, 0, 8, 0, 0, 0,
      44, 0, 0, 0, 100, 0, 0, 0, 1, 0, 0, 0, 8, 0, 0]"
  by (simp add: blob_S4_short_def bytes_S4)

lemma beyond_S4_short: "beyond blob_S4_short k = 0"
  by (simp add: blob_S4_short_def blob_S4_def)

lemma header_of_S4_short:
  "header_of example_config blob_S4_short =
     \<lparr>string_table_bytes = 24, string_table_size = 60, global_scope = 0,
      toc = 108, partition_count = 3\<rparr>"
  by (simp add: header_of_def record_at_in_blob sizeof_example decode_example u32_at_def
      bytes_S4_short)

lemma descriptors_of_S4_short:
  "descriptors_of example_config blob_S4_short =
     [\<lparr>name = 1, offset = 84, cardinality = 1, entry_size = 8\<rparr>,
      \<lparr>name = 17, offset = 92, cardinality = 1, entry_size = 8\<rparr>,
      \<lparr>name = 44, offset = 100, cardinality = 1, entry_size = 8\<rparr>]"
  by (simp add: descriptors_of_def header_of_S4_short records_at_numeral records_at_Suc records_at_0
      record_at_padded [of blob_S4_short 0, OF beyond_S4_short]
      sizeof_example decode_example u32_at_def bytes_S4_short)

lemma bytes_S4_count4:
  "bytes blob_S4_count4 =
     [84, 81, 69, 26,
      24, 0, 0, 0, 60, 0, 0, 0, 0, 0, 0, 0, 108, 0, 0, 0, 4, 0, 0, 0,
      0, 116, 114, 97, 105, 116, 46, 97, 116, 116, 114, 105, 98, 117, 116, 101, 0,
      46, 109, 115, 118, 99, 46, 116, 114, 97, 105, 116, 46, 100, 101, 99, 108, 45,
      97, 116, 116, 114, 115, 0,
      115, 116, 100, 0,
      109, 111, 100, 117, 108, 101, 46, 105, 109, 112, 111, 114, 116, 101, 100, 0,
      7, 0, 0, 0, 11, 0, 0, 0,
      7, 0, 0, 0, 22, 0, 0, 0,
      0, 0, 0, 0, 40, 0, 0, 0,
      1, 0, 0, 0, 84, 0, 0, 0, 1, 0, 0, 0, 8, 0, 0, 0,
      17, 0, 0, 0, 92, 0, 0, 0, 1, 0, 0, 0, 8, 0, 0, 0,
      44, 0, 0, 0, 100, 0, 0, 0, 1, 0, 0, 0, 8, 0, 0, 0]"
  by (simp add: blob_S4_count4_def bytes_S4)

lemma beyond_S4_count4: "beyond blob_S4_count4 k = 0"
  by (simp add: blob_S4_count4_def blob_S4_def)

lemma header_of_S4_count4:
  "header_of example_config blob_S4_count4 =
     \<lparr>string_table_bytes = 24, string_table_size = 60, global_scope = 0,
      toc = 108, partition_count = 4\<rparr>"
  by (simp add: header_of_def record_at_in_blob sizeof_example decode_example u32_at_def
      bytes_S4_count4)

lemma descriptors_of_S4_count4:
  "descriptors_of example_config blob_S4_count4 =
     [\<lparr>name = 1, offset = 84, cardinality = 1, entry_size = 8\<rparr>,
      \<lparr>name = 17, offset = 92, cardinality = 1, entry_size = 8\<rparr>,
      \<lparr>name = 44, offset = 100, cardinality = 1, entry_size = 8\<rparr>,
      \<lparr>name = 0, offset = 0, cardinality = 0, entry_size = 0\<rparr>]"
  by (simp add: descriptors_of_def header_of_S4_count4 records_at_numeral records_at_Suc records_at_0
      record_at_padded [of blob_S4_count4 0, OF beyond_S4_count4]
      sizeof_example decode_example u32_at_def bytes_S4_count4 le_nat_zeros)

text \<open>
  Claim C2. For every blob that passes the signature check, \<open>calc_size\<close> returns
  \<open>sizeof(signature) + sizeof(header) + string_table_size + toc.size_bytes()\<close> plus the sum
  of \<open>size_bytes()\<close> over the descriptors of the table of contents, computed as a \<open>size_t\<close>,
  that is modulo \<open>2^64\<close>; the header is the record at offset 4 and the descriptors are the
  \<open>partition_count\<close> records at offset \<open>toc\<close>, wherever the header puts them. The
  constructor fails with \<open>std::runtime_error("corrupted file")\<close> if and only if this
  computed size differs from the length of the blob (a \<open>size_t\<close> too).
\<close>

theorem open_size_check:
  assumes sig: "4 \<le> length (bytes blob)" "take 4 (bytes blob) = CANONICAL_FILE_SIGNATURE"
    and len: "length (bytes blob) < 2 ^ 64"
  shows "\<exists>n. fst (calc_size C (Impl_init blob)) = Inr n
     \<and> unat n = (4 + sizeof (FileHeader_T C) + string_table_size (header_of C blob)
              + partition_count (header_of C blob) * sizeof (PartitionSummary_T C)
              + sum_list (map (\<lambda>d. cardinality d * entry_size d) (descriptors_of C blob)))
                mod 2 ^ 64
     \<and> (fst (File_ctor C blob env) = Inl (Runtime_error ''corrupted file'')
          \<longleftrightarrow> unat n \<noteq> length (bytes blob))"
proof -
  define total where "total = 4 + sizeof (FileHeader_T C) + string_table_size (header_of C blob)
              + partition_count (header_of C blob) * sizeof (PartitionSummary_T C)
              + sum_list (map (\<lambda>d. cardinality d * entry_size d) (descriptors_of C blob))"
  define n :: size_t where "n = of_nat total"
  have calc: "fst (calc_size C (Impl_init blob)) = Inr n"
    unfolding n_def total_def using calc_size_layout [of C "Impl_init blob"]
    by (simp only: blob_Impl_init)
  have u: "unat n = total mod 2 ^ 64"
    unfolding n_def by (simp only: unat_of_nat) simp
  have eq: "n \<noteq> of_nat (length (bytes blob)) \<longleftrightarrow> unat n \<noteq> length (bytes blob)"
  proof -
    have "unat (of_nat (length (bytes blob)) :: size_t) = length (bytes blob)"
      using len by (simp add: unat_of_nat)
    then show ?thesis by (simp add: word_unat_eq_iff)
  qed
  have ctor: "fst (File_ctor C blob env) = Inl (Runtime_error ''corrupted file'')
          \<longleftrightarrow> n \<noteq> of_nat (length (bytes blob))"
    using sig calc table_of_contents_header_of [of C "Impl_init blob"]
      fill_table_of_contents_not_runtime_error
    by (auto simp: File_ctor_def Impl_ctor_def fst_rd_bind fst_rd_ret fst_rd_throw
        structure_signature_ok split: sum.splits)
  from calc u eq ctor show ?thesis
    unfolding total_def by blast
qed

theorem open_size_check_witness:
  "4 \<le> length (bytes blob_attrs) \<and> take 4 (bytes blob_attrs) = CANONICAL_FILE_SIGNATURE
   \<and> length (bytes blob_attrs) < 2 ^ 64
   \<and> length (bytes blob_attrs) = 152
   \<and> fst (calc_size example_config (Impl_init blob_attrs)) = Inr 152
   \<and> fst (File_ctor example_config blob_attrs ()) \<noteq> Inl (Runtime_error ''corrupted file'')
   \<and> length (bytes blob_S4_short) = 155
   \<and> fst (calc_size example_config (Impl_init blob_S4_short)) = Inr 156
   \<and> fst (File_ctor example_config blob_S4_short ()) = Inl (Runtime_error ''corrupted file'')
   \<and> length (bytes blob_S4_count4) = 156
   \<and> fst (calc_size example_config (Impl_init blob_S4_count4)) = Inr 172
   \<and> fst (File_ctor example_config blob_S4_count4 ()) = Inl (Runtime_error ''corrupted file'')
   \<and> length (bytes blob_S1_longer) = 25
   \<and> fst (calc_size example_config (Impl_init blob_S1_longer)) = Inr 24
   \<and> fst (File_ctor example_config blob_S1_longer ()) = Inl (Runtime_error ''corrupted file'')"
proof -
  have a: "4 \<le> length (bytes blob_attrs)"
    and b: "take 4 (bytes blob_attrs) = CANONICAL_FILE_SIGNATURE"
    and c: "length (bytes blob_attrs) < 2 ^ 64"
    and d: "length (bytes blob_attrs) = 152"
    by (simp_all add: bytes_attrs CANONICAL_FILE_SIGNATURE_def)
  have a1: "4 \<le> length (bytes blob_S4_short)"
    and b1: "take 4 (bytes blob_S4_short) = CANONICAL_FILE_SIGNATURE"
    and c1: "length (bytes blob_S4_short) < 2 ^ 64"
    and d1: "length (bytes blob_S4_short) = 155"
    by (simp_all add: bytes_S4_short CANONICAL_FILE_SIGNATURE_def)
  have a2: "4 \<le> length (bytes blob_S4_count4)"
    and b2: "take 4 (bytes blob_S4_count4) = CANONICAL_FILE_SIGNATURE"
    and c2: "length (bytes blob_S4_count4) < 2 ^ 64"
    and d2: "length (bytes blob_S4_count4) = 156"
    by (simp_all add: bytes_S4_count4 CANONICAL_FILE_SIGNATURE_def)
  have a3: "4 \<le> length (bytes blob_S1_longer)"
    and b3: "take 4 (bytes blob_S1_longer) = CANONICAL_FILE_SIGNATURE"
    and c3: "length (bytes blob_S1_longer) < 2 ^ 64"
    and d3: "length (bytes blob_S1_longer) = 25"
    by (simp_all add: bytes_S1_longer CANONICAL_FILE_SIGNATURE_def)
  have good: "fst (calc_size example_config (Impl_init blob_attrs)) = Inr 152
     \<and> fst (File_ctor example_config blob_attrs ()) \<noteq> Inl (Runtime_error ''corrupted file'')"
    using open_size_check [OF a b c, of example_config "()"]
    by (auto simp: header_of_attrs descriptors_of_attrs sizeof_example d word_unat_eq_iff)
  have short: "fst (calc_size example_config (Impl_init blob_S4_short)) = Inr 156
     \<and> fst (File_ctor example_config blob_S4_short ()) = Inl (Runtime_error ''corrupted file'')"
    using open_size_check [OF a1 b1 c1, of example_config "()"]
    by (auto simp: header_of_S4_short descriptors_of_S4_short sizeof_example d1
        word_unat_eq_iff)
  have count4: "fst (calc_size example_config (Impl_init blob_S4_count4)) = Inr 172
     \<and> fst (File_ctor example_config blob_S4_count4 ()) = Inl (Runtime_error ''corrupted file'')"
    using open_size_check [OF a2 b2 c2, of example_config "()"]
    by (auto simp: header_of_S4_count4 descriptors_of_S4_count4 sizeof_example d2
        word_unat_eq_iff)
  have longer: "fst (calc_size example_config (Impl_init blob_S1_longer)) = Inr 24
     \<and> fst (File_ctor example_config blob_S1_longer ()) = Inl (Runtime_error ''corrupted file'')"
    using open_size_check [OF a3 b3 c3, of example_config "()"]
    by (auto simp: header_of_S1_longer descriptors_of_S1_longer sizeof_example d3
        word_unat_eq_iff)
  from a b c d good d1 short d2 count4 d3 longer show ?thesis
    by simp
qed

section \<open>The partition resolver\<close>

text \<open>
  Claim C3. For every partition descriptor found in the table of contents under the
  requested name, \<open>get_partition<T, I>(name)\<close> returns the partition whose data pointer is
  \<open>blob.base + descriptor.offset\<close> and whose length is \<open>descriptor.cardinality\<close>, after the
  assertion that \<open>descriptor.entry_size == sizeof(T)\<close>, which stops the call where
  assertions are compiled in and the sizes differ.
\<close>

theorem get_partition_resolves:
  assumes "m_table_of_contents this nm = Some s"
    and "fst (load_obj (PartitionSummary_T C) (m_blob this) s) = Inr d"
  shows "fst (get_partition C T this nm) =
           (if assertions C \<and> entry_size d \<noteq> sizeof T then Inl Assertion_failed
            else Inr \<lparr>pdata = data (m_blob this) + offset d, psize = cardinality d\<rparr>)"
  using assms
  by (simp add: get_partition_def get_partition_ptr_def fst_rd_bind fst_rd_ret fst_rd_throw
      get_pointer_def get_raw_pointer_def)

theorem get_partition_resolves_witness:
  "m_table_of_contents impl_S4 (str ''trait.attribute'') = Some 4204
   \<and> fst (load_obj (PartitionSummary_T example_config) (m_blob impl_S4) 4204)
       = Inr \<lparr>name = 1, offset = 84, cardinality = 1, entry_size = 8\<rparr>
   \<and> fst (get_partition example_config (AttrTrait_T example_config) impl_S4
            (str ''trait.attribute'')) = Inr \<lparr>pdata = 4096 + 84, psize = 1\<rparr>
   \<and> fst (get_partition example_config (SeqTrait_T example_config) impl_S4
            (str ''trait.attribute'')) = Inl Assertion_failed"
proof -
  have d: "fst (load_obj (PartitionSummary_T example_config) (m_blob impl_S4) 4204)
       = Inr \<lparr>name = 1, offset = 84, cardinality = 1, entry_size = 8\<rparr>"
    by (simp add: blob_impl_S4 summary_S4)
  have s: "sizeof (SeqTrait_T example_config) = 12"
    by (simp add: example_config_def)
  show ?thesis
    using toc_impl_S4(1) d
      get_partition_resolves [OF toc_impl_S4(1) d, of "AttrTrait_T example_config"]
      get_partition_resolves [OF toc_impl_S4(1) d, of "SeqTrait_T example_config"]
    by (simp add: sizeof_example s blob_impl_S4 data_S4)
qed

text \<open>
  Claim C7. For every partition name that the table of contents does not list,
  \<open>try_get_partition(name)\<close> returns \<open>std::nullopt\<close> and \<open>get_partition(name)\<close> fails with
  the \<open>std::out_of_range\<close> of \<open>unordered_map::at\<close>, neither reading the blob; for
  every name that is listed, \<open>try_get_partition\<close> returns the partition \<open>get_partition\<close>
  returns, and fails as it does.
\<close>

theorem try_get_partition_vs_get_partition:
  "(m_table_of_contents this nm = None \<longrightarrow>
      try_get_partition C T this nm = (Inr None, [])
      \<and> get_partition C T this nm = (Inl Out_of_range, []))
   \<and> (m_table_of_contents this nm \<noteq> None \<longrightarrow>
      fst (try_get_partition C T this nm) =
        (case fst (get_partition C T this nm) of Inl e \<Rightarrow> Inl e | Inr p \<Rightarrow> Inr (Some p)))"
  by (auto simp: try_get_partition_def get_partition_def rd_ret_def rd_throw_def fst_rd_bind
      split: sum.splits)

theorem try_get_partition_vs_get_partition_witness:
  "m_table_of_contents impl_S4 (str ''trait.deprecated'') = None
   \<and> try_get_partition example_config (TextTrait_T example_config) impl_S4
        (str ''trait.deprecated'') = (Inr None, [])
   \<and> get_partition example_config (TextTrait_T example_config) impl_S4
        (str ''trait.deprecated'') = (Inl Out_of_range, [])
   \<and> m_table_of_contents impl_S4 (str ''trait.attribute'') \<noteq> None
   \<and> fst (get_partition example_config (AttrTrait_T example_config) impl_S4
        (str ''trait.attribute'')) = Inr \<lparr>pdata = 4180, psize = 1\<rparr>
   \<and> fst (try_get_partition example_config (AttrTrait_T example_config) impl_S4
        (str ''trait.attribute'')) = Inr (Some \<lparr>pdata = 4180, psize = 1\<rparr>)"
proof -
  have g: "fst (get_partition example_config (AttrTrait_T example_config) impl_S4
        (str ''trait.attribute'')) = Inr \<lparr>pdata = 4180, psize = 1\<rparr>"
    by (simp add: get_partition_def get_partition_ptr_def toc_impl_S4 blob_impl_S4
        summary_S4 fst_rd_bind fst_rd_ret sizeof_example get_pointer_def
        get_raw_pointer_def data_S4)
  show ?thesis
    using toc_impl_S4 g
      try_get_partition_vs_get_partition [of impl_S4 "str ''trait.deprecated''"
        example_config "TextTrait_T example_config"]
      try_get_partition_vs_get_partition [of impl_S4 "str ''trait.attribute''"
        example_config "AttrTrait_T example_config"]
    by simp
qed

text \<open>
  Claim C4. For every cached accessor (a partition name, a record type and a cache slot
  passed to \<open>get_and_cache_partition\<close>, or a cache member passed to
  \<open>get_partition_with_cache\<close>) and every state of the file in which a call succeeds, the
  next call returns the same partition, data pointer and length, from the cache: it
  leaves the file as it is and reads nothing from the blob.
\<close>

theorem cache_hit_equals_miss:
  "(fst (get_and_cache_partition C T this nm slot) = Inr (part, this') \<longrightarrow>
      get_and_cache_partition C T this' nm slot = (Inr (part, this'), []))
   \<and> (fst (get_partition_with_cache C T file cache nm) = Inr (part, cache') \<longrightarrow>
      get_partition_with_cache C T file cache' nm = (Inr (part, cache'), []))"
proof (intro conjI impI)
  assume a: "fst (get_and_cache_partition C T this nm slot) = Inr (part, this')"
  show "get_and_cache_partition C T this' nm slot = (Inr (part, this'), [])"
  proof (cases "length (m_cached_partitions this) \<le> slot")
    case True
    with a show ?thesis
      by (simp add: get_and_cache_partition_def fst_rd_throw)
  next
    case False
    show ?thesis
    proof (cases "m_cached_partitions this ! slot")
      case (Some c)
      with a False show ?thesis
        by (auto simp: get_and_cache_partition_def rd_ret_def)
    next
      case None
      with a False show ?thesis
        by (auto simp: get_and_cache_partition_def rd_bind_Inr fst_rd_ret rd_ret_def)
    qed
  qed
next
  assume "fst (get_partition_with_cache C T file cache nm) = Inr (part, cache')"
  then show "get_partition_with_cache C T file cache' nm = (Inr (part, cache'), [])"
    by (cases cache) (auto simp: get_partition_with_cache_def rd_bind_Inr fst_rd_ret rd_ret_def)
qed

theorem cache_hit_equals_miss_witness:
  "fst (get_and_cache_partition example_config (ModuleReference_T example_config) impl_S4
          (str ''module.imported'') ImportedModules)
     = Inr (\<lparr>pdata = 4196, psize = 1\<rparr>,
            impl_S4\<lparr>m_cached_partitions := (m_cached_partitions impl_S4)
              [ImportedModules := Some \<lparr>udata = 4196, usize = 1\<rparr>]\<rparr>)
   \<and> get_and_cache_partition example_config (ModuleReference_T example_config)
        (impl_S4\<lparr>m_cached_partitions := (m_cached_partitions impl_S4)
              [ImportedModules := Some \<lparr>udata = 4196, usize = 1\<rparr>]\<rparr>)
        (str ''module.imported'') ImportedModules
     = (Inr (\<lparr>pdata = 4196, psize = 1\<rparr>,
            impl_S4\<lparr>m_cached_partitions := (m_cached_partitions impl_S4)
              [ImportedModules := Some \<lparr>udata = 4196, usize = 1\<rparr>]\<rparr>), [])
   \<and> fst (get_partition_with_cache example_config (ModuleReference_T example_config)
          \<lparr>m_env = (), m_impl = impl_S4\<rparr> None (str ''module.imported''))
     = Inr (\<lparr>pdata = 4196, psize = 1\<rparr>, Some \<lparr>pdata = 4196, psize = 1\<rparr>)
   \<and> get_partition_with_cache example_config (ModuleReference_T example_config)
          \<lparr>m_env = (), m_impl = impl_S4\<rparr> (Some \<lparr>pdata = 4196, psize = 1\<rparr>)
          (str ''module.imported'')
     = (Inr (\<lparr>pdata = 4196, psize = 1\<rparr>, Some \<lparr>pdata = 4196, psize = 1\<rparr>), [])"
proof -
  have p: "fst (get_partition_ptr example_config (ModuleReference_T example_config)
             impl_S4 4236) = Inr \<lparr>pdata = 4196, psize = 1\<rparr>"
    by (simp add: get_partition_ptr_def blob_impl_S4 summary_S4 fst_rd_bind fst_rd_ret
        sizeof_example get_pointer_def get_raw_pointer_def data_S4)
  have c: "m_cached_partitions impl_S4 = replicate Num None"
    by (simp add: impl_S4_def)
  have a: "fst (get_and_cache_partition example_config (ModuleReference_T example_config)
          impl_S4 (str ''module.imported'') ImportedModules)
     = Inr (\<lparr>pdata = 4196, psize = 1\<rparr>,
            impl_S4\<lparr>m_cached_partitions := (m_cached_partitions impl_S4)
              [ImportedModules := Some \<lparr>udata = 4196, usize = 1\<rparr>]\<rparr>)"
    by (simp add: get_and_cache_partition_def c Num_def ImportedModules_def toc_impl_S4 p
        fst_rd_bind fst_rd_ret)
  have b: "fst (get_partition_with_cache example_config (ModuleReference_T example_config)
          \<lparr>m_env = (), m_impl = impl_S4\<rparr> None (str ''module.imported''))
     = Inr (\<lparr>pdata = 4196, psize = 1\<rparr>, Some \<lparr>pdata = 4196, psize = 1\<rparr>)"
    by (simp add: get_partition_with_cache_def get_partition_def toc_impl_S4 p
        fst_rd_bind fst_rd_ret)
  from a b cache_hit_equals_miss [of example_config "ModuleReference_T example_config"
      impl_S4 "str ''module.imported''" ImportedModules "\<lparr>pdata = 4196, psize = 1\<rparr>"
      "impl_S4\<lparr>m_cached_partitions := (m_cached_partitions impl_S4)
              [ImportedModules := Some \<lparr>udata = 4196, usize = 1\<rparr>]\<rparr>"
      "\<lparr>m_env = (), m_impl = impl_S4\<rparr>" None "Some \<lparr>pdata = 4196, psize = 1\<rparr>"]
  show ?thesis by simp
qed

section \<open>Strings and imported modules\<close>

lemma header_reads:
  "fst (header C this) = Inr h \<Longrightarrow> snd (header C this) = [4..<4 + sizeof (FileHeader_T C)]"
  by (simp add: header_header_of)

lemma Impl_ctor_header:
  assumes "fst (Impl_ctor C blob) = Inr this0"
  shows "\<exists>h. fst (header C (Impl_init blob)) = Inr h"
  using assms
  by (auto simp: Impl_ctor_def calc_size_def rd_bind_Inr fst_rd_throw split: if_splits)

lemma header_impl_S4:
  "fst (header example_config impl_S4) =
     Inr \<lparr>string_table_bytes = 24, string_table_size = 60, global_scope = 0,
          toc = 108, partition_count = 3\<rparr>"
  using header_S4 header_blob [of impl_S4 "Impl_init blob_S4" example_config]
  by (simp add: blob_impl_S4 blob_Impl_init)

text \<open>
  Claim C10. For every \<open>TextOffset t\<close>, the null offset and offsets at or beyond the size
  of the string table included, \<open>get_string(t)\<close> on a constructed file returns exactly the
  pointer \<open>blob.base + header.string_table_bytes + t\<close>. It checks no bound and looks for no
  NUL terminator: the call returns for every \<open>t\<close> and the only bytes it reads are those
  of the header (offsets 4 to \<open>4 + sizeof(FileHeader)\<close>), for the field
  \<open>string_table_bytes\<close>.
\<close>

theorem get_string_pointer:
  assumes "fst (Impl_ctor C (m_blob this)) = Inr this0"
  shows "\<exists>h. fst (header C this) = Inr h
           \<and> get_string C this t =
               (Inr (data (m_blob this) + string_table_bytes h + t),
                [4..<4 + sizeof (FileHeader_T C)])"
proof -
  from Impl_ctor_header [OF assms] obtain h
    where "fst (header C (Impl_init (m_blob this))) = Inr h"
    by blast
  then have h: "fst (header C this) = Inr h"
    using header_blob [of this "Impl_init (m_blob this)" C] by (simp add: blob_Impl_init)
  have "get_string C this t =
          (Inr (data (m_blob this) + string_table_bytes h + t),
           [4..<4 + sizeof (FileHeader_T C)])"
    using h header_reads [OF h]
    by (simp add: get_string_def rd_bind_def rd_ret_def get_pointer_def get_raw_pointer_def)
  with h show ?thesis by blast
qed

theorem get_string_pointer_witness:
  "fst (Impl_ctor example_config (m_blob impl_S4)) = Inr impl_S4
   \<and> get_string example_config impl_S4 0 = (Inr (4096 + 24 + 0), [4..<4 + 20])
   \<and> get_string example_config impl_S4 1000 = (Inr (4096 + 24 + 1000), [4..<4 + 20])"
proof -
  have a: "fst (Impl_ctor example_config (m_blob impl_S4)) = Inr impl_S4"
    by (simp add: blob_impl_S4 Impl_ctor_S4)
  have s: "sizeof (FileHeader_T example_config) = 20"
    by (simp add: example_config_def)
  show ?thesis
    using a get_string_pointer [OF a, of 0] get_string_pointer [OF a, of 1000]
    by (simp add: header_impl_S4 blob_impl_S4 data_S4 s)
qed

text \<open>
  Claim C9. For every \<open>ModuleReference m\<close>, \<open>get_imported_module(m)\<close> asks the environment
  for the module named by the string at \<open>get_string(m.partition)\<close> when \<open>m.owner\<close> is null,
  by the string at \<open>get_string(m.owner)\<close>, a colon and the string at
  \<open>get_string(m.partition)\<close> when neither is null, and by the string at
  \<open>get_string(m.owner)\<close> alone when only \<open>m.partition\<close> is null. The result is what the
  environment returns for that name, whatever the environment is.
\<close>

theorem get_imported_module_name:
  "(is_null (owner m)
      \<and> fst (get_string_view C (m_impl file) (partition m)) = Inr p
      \<longrightarrow> fst (get_imported_module C file m) = Inr (m_env file p))
   \<and> (\<not> is_null (owner m) \<and> \<not> is_null (partition m)
      \<and> fst (get_string_view C (m_impl file) (owner m)) = Inr ow
      \<and> fst (get_string_view C (m_impl file) (partition m)) = Inr p
      \<longrightarrow> fst (get_imported_module C file m) = Inr (m_env file (ow @ str '':'' @ p)))
   \<and> (\<not> is_null (owner m) \<and> is_null (partition m)
      \<and> fst (get_string_view C (m_impl file) (owner m)) = Inr ow
      \<longrightarrow> fst (get_imported_module C file m) = Inr (m_env file ow))"
  by (simp add: get_imported_module_def fst_rd_bind fst_rd_ret)

theorem get_imported_module_name_witness:
  "is_null (owner \<lparr>owner = 0, partition = 40\<rparr>)
   \<and> fst (get_string_view example_config impl_S4 40) = Inr (str ''std'')
   \<and> fst (get_imported_module example_config \<lparr>m_env = (\<lambda>nm. nm), m_impl = impl_S4\<rparr>
            \<lparr>owner = 0, partition = 40\<rparr>) = Inr (str ''std'')
   \<and> \<not> is_null (40 :: nat) \<and> \<not> is_null (44 :: nat)
   \<and> fst (get_string_view example_config impl_S4 44) = Inr (str ''module.imported'')
   \<and> fst (get_imported_module example_config \<lparr>m_env = (\<lambda>nm. nm), m_impl = impl_S4\<rparr>
            \<lparr>owner = 40, partition = 44\<rparr>) = Inr (str ''std:module.imported'')
   \<and> fst (get_imported_module example_config \<lparr>m_env = (\<lambda>nm. nm), m_impl = impl_S4\<rparr>
            \<lparr>owner = 40, partition = 0\<rparr>) = Inr (str ''std'')"
proof -
  note v = get_string_view_S4 [OF blob_impl_S4]
  show ?thesis
    using v
      get_imported_module_name [of "\<lparr>owner = 0, partition = 40\<rparr>" example_config
        "\<lparr>m_env = (\<lambda>nm. nm), m_impl = impl_S4\<rparr>" "str ''std''"]
      get_imported_module_name [of "\<lparr>owner = 40, partition = 44\<rparr>" example_config
        "\<lparr>m_env = (\<lambda>nm. nm), m_impl = impl_S4\<rparr>" "str ''module.imported''" "str ''std''"]
      get_imported_module_name [of "\<lparr>owner = 40, partition = 0\<rparr>" example_config
        "\<lparr>m_env = (\<lambda>nm. nm), m_impl = impl_S4\<rparr>" "[]" "str ''std''"]
    by (simp add: is_null_def str_def)
qed

section \<open>The trait indexes\<close>

lemma get_value_push_back_at:
  "get_value [] D (push_back_at m e) =
     (if fst e = D then get_value [] D m @ [snd e] else get_value [] D m)"
  by (simp add: get_value_def push_back_at_def)

lemma get_value_foldl_push_back_at:
  "get_value [] D (foldl push_back_at m xs) =
     get_value [] D m @ map snd (filter (\<lambda>e. fst e = D) xs)"
  by (induction xs arbitrary: m) (simp_all add: get_value_push_back_at)

lemma try_get_partition_frame:
  "try_get_partition C T (this\<lparr>m_trait_declaration_attributes := x\<rparr>) nm
     = try_get_partition C T this nm"
  by (simp add: try_get_partition_def get_partition_ptr_def get_pointer_def
      get_raw_pointer_def cong: option.case_cong if_cong)

lemma partition_records_frame:
  "partition_records C T (this\<lparr>m_trait_declaration_attributes := x\<rparr>) nm
     = partition_records C T this nm"
  by (simp add: partition_records_def cong: option.case_cong)

lemma try_get_partition_elems:
  assumes "fst (try_get_partition C T this nm) = Inr part"
  shows "fst (case part of
                None \<Rightarrow> rd_ret []
              | Some p \<Rightarrow> load_elems T (m_blob this) (pdata p) (psize p))
           = Inr (partition_records C T this nm)"
proof (cases "m_table_of_contents this nm")
  case None
  with assms show ?thesis
    by (auto simp: try_get_partition_def partition_records_def fst_rd_ret)
next
  case (Some s)
  let ?d = "record_at (PartitionSummary_T C) (m_blob this) (s - data (m_blob this))"
  have le: "data (m_blob this) \<le> s"
  proof (rule ccontr)
    assume "\<not> data (m_blob this) \<le> s"
    with assms Some show False
      by (simp add: try_get_partition_def get_partition_ptr_def load_obj_def load_def
          fst_rd_bind)
  qed
  with assms Some have "part = Some \<lparr>pdata = data (m_blob this) + offset ?d, psize = cardinality ?d\<rparr>"
    by (auto simp: try_get_partition_def get_partition_ptr_def load_obj_record_at fst_rd_bind
        fst_rd_ret fst_rd_throw get_pointer_def get_raw_pointer_def split: if_splits)
  with Some show ?thesis
    by (simp add: partition_records_def load_elems_records_at)
qed

lemma fill_decl_attributes_layout:
  assumes "m_trait_declaration_attributes this = Some m"
    and "fst (try_get_partition C (AttrTrait_T C) this nm) = Inr part"
  shows "fst (fill_decl_attributes C this nm) =
           Inr (this\<lparr>m_trait_declaration_attributes :=
                  Some (foldl push_back_at m (partition_records C (AttrTrait_T C) this nm))\<rparr>)"
proof (cases part)
  case None
  with try_get_partition_elems [OF assms(2)]
  have "partition_records C (AttrTrait_T C) this nm = []"
    by (simp add: fst_rd_ret)
  moreover have "this\<lparr>m_trait_declaration_attributes := Some m\<rparr> = this"
    using assms(1) by simp
  ultimately show ?thesis
    using assms(2) None by (simp add: fill_decl_attributes_def fst_rd_bind fst_rd_ret)
next
  case (Some p)
  with try_get_partition_elems [OF assms(2)] assms show ?thesis
    by (simp add: fill_decl_attributes_def fst_rd_bind fst_rd_ret)
qed

lemma Impl_trait_declaration_attributes_built:
  assumes "m_trait_declaration_attributes this = None"
    and "fst (try_get_partition C (AttrTrait_T C) this (str ''trait.attribute'')) = Inr part1"
    and "fst (try_get_partition C (AttrTrait_T C) this (str ''.msvc.trait.decl-attrs''))
           = Inr part2"
  shows "fst (Impl_trait_declaration_attributes C this) =
           Inr (foldl push_back_at Map.empty
                  (partition_records C (AttrTrait_T C) this (str ''trait.attribute'')
                    @ partition_records C (AttrTrait_T C) this (str ''.msvc.trait.decl-attrs'')),
                this\<lparr>m_trait_declaration_attributes :=
                  Some (foldl push_back_at Map.empty
                    (partition_records C (AttrTrait_T C) this (str ''trait.attribute'')
                      @ partition_records C (AttrTrait_T C) this
                          (str ''.msvc.trait.decl-attrs'')))\<rparr>)"
proof -
  let ?xs = "partition_records C (AttrTrait_T C) this (str ''trait.attribute'')"
  let ?ys = "partition_records C (AttrTrait_T C) this (str ''.msvc.trait.decl-attrs'')"
  let ?this0 = "this\<lparr>m_trait_declaration_attributes := Some Map.empty\<rparr>"
  let ?this1 = "this\<lparr>m_trait_declaration_attributes := Some (foldl push_back_at Map.empty ?xs)\<rparr>"
  have 1: "fst (fill_decl_attributes C ?this0 (str ''trait.attribute'')) = Inr ?this1"
    using fill_decl_attributes_layout [of ?this0 Map.empty C "str ''trait.attribute''" part1]
      assms(2)
    by (simp add: try_get_partition_frame partition_records_frame)
  have 2: "fst (fill_decl_attributes C ?this1 (str ''.msvc.trait.decl-attrs'')) =
             Inr (this\<lparr>m_trait_declaration_attributes :=
                       Some (foldl push_back_at Map.empty (?xs @ ?ys))\<rparr>)"
    using fill_decl_attributes_layout [of ?this1 "foldl push_back_at Map.empty ?xs" C
        "str ''.msvc.trait.decl-attrs''" part2] assms(3)
    by (simp add: try_get_partition_frame partition_records_frame)
  show ?thesis
    using assms(1) 1 2
    by (simp add: Impl_trait_declaration_attributes_def fst_rd_bind fst_rd_ret)
qed

text \<open>
  Claim C5. For every declaration index \<open>D\<close>, the list \<open>trait_declaration_attributes(D)\<close>
  returns consists of the attributes of \<open>D\<close>'s entries among the records of the partition
  \<open>trait.attribute\<close>, in partition order, followed by those of \<open>D\<close>'s entries among the
  records of \<open>.msvc.trait.decl-attrs\<close>, in partition order, every entry kept (nothing is
  deduplicated). The records of a partition are the \<open>cardinality\<close> records laid out at the
  \<open>offset\<close> of its descriptor (\<open>partition_records\<close>), none for a partition that is not
  listed. The first query builds the index, provided both partitions resolve (the
  assertion on the entry size does not stop either); every later query, for any
  declaration, answers from it in the same way.
\<close>

theorem trait_declaration_attributes_order:
  assumes "m_trait_declaration_attributes (m_impl file) = None"
    and "fst (try_get_partition C (AttrTrait_T C) (m_impl file) (str ''trait.attribute''))
           = Inr part1"
    and "fst (try_get_partition C (AttrTrait_T C) (m_impl file) (str ''.msvc.trait.decl-attrs''))
           = Inr part2"
  shows "\<exists>file'.
           fst (File_trait_declaration_attributes C file D) =
             Inr (map snd (filter (\<lambda>e. fst e = D)
                    (partition_records C (AttrTrait_T C) (m_impl file) (str ''trait.attribute'')))
                  @ map snd (filter (\<lambda>e. fst e = D)
                    (partition_records C (AttrTrait_T C) (m_impl file)
                       (str ''.msvc.trait.decl-attrs''))),
                  file')
           \<and> (\<forall>D'. fst (File_trait_declaration_attributes C file' D') =
                 Inr (map snd (filter (\<lambda>e. fst e = D')
                        (partition_records C (AttrTrait_T C) (m_impl file)
                           (str ''trait.attribute'')))
                      @ map snd (filter (\<lambda>e. fst e = D')
                        (partition_records C (AttrTrait_T C) (m_impl file)
                           (str ''.msvc.trait.decl-attrs''))),
                      file'))"
proof -
  let ?xs = "partition_records C (AttrTrait_T C) (m_impl file) (str ''trait.attribute'')"
  let ?ys = "partition_records C (AttrTrait_T C) (m_impl file) (str ''.msvc.trait.decl-attrs'')"
  let ?m = "foldl push_back_at Map.empty (?xs @ ?ys)"
  let ?file' = "file\<lparr>m_impl := (m_impl file)\<lparr>m_trait_declaration_attributes := Some ?m\<rparr>\<rparr>"
  have v: "get_value [] k ?m =
             map snd (filter (\<lambda>e. fst e = k) ?xs) @ map snd (filter (\<lambda>e. fst e = k) ?ys)" for k
    by (simp add: get_value_foldl_push_back_at) (simp add: get_value_def)
  have first: "fst (File_trait_declaration_attributes C file D) =
                 Inr (map snd (filter (\<lambda>e. fst e = D) ?xs)
                        @ map snd (filter (\<lambda>e. fst e = D) ?ys), ?file')"
    using Impl_trait_declaration_attributes_built [OF assms] v [of D]
    by (simp add: File_trait_declaration_attributes_def fst_rd_bind fst_rd_ret)
  have later: "fst (File_trait_declaration_attributes C ?file' k) =
                 Inr (map snd (filter (\<lambda>e. fst e = k) ?xs)
                        @ map snd (filter (\<lambda>e. fst e = k) ?ys), ?file')" for k
    using v [of k]
    by (simp add: File_trait_declaration_attributes_def Impl_trait_declaration_attributes_def
        fst_rd_bind fst_rd_ret)
  from first later show ?thesis by blast
qed

lemma names_attrs:
  "str ''trait.attribute'' \<noteq> str ''.msvc.trait.decl-attrs''"
  "str ''.msvc.trait.decl-attrs'' \<noteq> str ''trait.attribute''"
  by (simp_all add: str_def)

lemma toc_impl_attrs:
  "m_table_of_contents impl_attrs (str ''trait.attribute'') = Some 4216"
  "m_table_of_contents impl_attrs (str ''.msvc.trait.decl-attrs'') = Some 4232"
  by (simp_all add: impl_attrs_def names_attrs)

lemma blob_impl_attrs: "m_blob impl_attrs = blob_attrs"
  by (simp add: impl_attrs_def)

lemma summary_attrs:
  "record_at (PartitionSummary_T example_config) blob_attrs 120 =
     \<lparr>name = 1, offset = 64, cardinality = 4, entry_size = 8\<rparr>"
  "record_at (PartitionSummary_T example_config) blob_attrs 136 =
     \<lparr>name = 17, offset = 96, cardinality = 3, entry_size = 8\<rparr>"
  by (simp_all add: record_at_in_blob sizeof_example decode_example u32_at_def bytes_attrs)

lemma get_string_view_attrs:
  assumes "m_blob this = blob_attrs"
  shows "fst (get_string_view example_config this (Suc 0)) = Inr (str ''trait.attribute'')"
    and "fst (get_string_view example_config this 17) = Inr (str ''.msvc.trait.decl-attrs'')"
proof -
  have a: "fst (c_str blob_attrs 4121) = Inr (str ''trait.attribute'')"
    by (simp add: c_str_def data_attrs bytes_attrs str_def)
  have b: "fst (c_str blob_attrs 4137) = Inr (str ''.msvc.trait.decl-attrs'')"
    by (simp add: c_str_def data_attrs bytes_attrs str_def)
  show "fst (get_string_view example_config this (Suc 0)) = Inr (str ''trait.attribute'')"
    using assms a
    by (simp add: get_string_view_def get_string_def fst_rd_bind fst_rd_ret header_header_of
        header_of_attrs get_pointer_def get_raw_pointer_def data_attrs)
  show "fst (get_string_view example_config this 17) = Inr (str ''.msvc.trait.decl-attrs'')"
    using assms b
    by (simp add: get_string_view_def get_string_def fst_rd_bind fst_rd_ret header_header_of
        header_of_attrs get_pointer_def get_raw_pointer_def data_attrs)
qed

lemma Impl_ctor_attrs: "fst (Impl_ctor example_config blob_attrs) = Inr impl_attrs"
proof -
  have sig: "fst (structure_signature (Impl_init blob_attrs)) = Inr CANONICAL_FILE_SIGNATURE"
    by (simp add: structure_signature_ok bytes_attrs CANONICAL_FILE_SIGNATURE_def)
  have len: "length (bytes blob_attrs) = 152"
    by (simp add: bytes_attrs)
  have calc: "fst (calc_size example_config (Impl_init blob_attrs)) = Inr 152"
    by (simp add: calc_size_layout blob_Impl_init header_of_attrs descriptors_of_attrs
        sizeof_example)
  have t: "fst (table_of_contents example_config (Impl_init blob_attrs))
             = Inr \<lparr>pdata = 4216, psize = 2\<rparr>"
    by (simp add: table_of_contents_header_of blob_Impl_init header_of_attrs data_attrs)
  have fill: "fst (fill_table_of_contents example_config (Impl_init blob_attrs) 4216 2)
                = Inr impl_attrs"
    by (simp add: fill_table_of_contents_numeral fst_rd_bind fst_rd_ret load_obj_record_at
        data_attrs summary_attrs get_string_view_attrs blob_Impl_init sizeof_example
        emplace_def names_attrs)
       (simp add: Impl_init_def impl_attrs_def names_attrs)
  show ?thesis
    using sig calc len t fill
    by (simp add: Impl_ctor_def fst_rd_bind)
qed

lemma try_get_partition_attrs:
  "fst (try_get_partition example_config (AttrTrait_T example_config) impl_attrs
          (str ''trait.attribute'')) = Inr (Some \<lparr>pdata = 4160, psize = 4\<rparr>)"
  "fst (try_get_partition example_config (AttrTrait_T example_config) impl_attrs
          (str ''.msvc.trait.decl-attrs'')) = Inr (Some \<lparr>pdata = 4192, psize = 3\<rparr>)"
  by (simp_all add: try_get_partition_def get_partition_ptr_def toc_impl_attrs blob_impl_attrs
      load_obj_record_at data_attrs summary_attrs fst_rd_bind fst_rd_ret sizeof_example
      get_pointer_def get_raw_pointer_def)

lemma partition_records_attrs:
  "partition_records example_config (AttrTrait_T example_config) impl_attrs
     (str ''trait.attribute'') = [(7, 11), (8, 33), (7, 12), (7, 11)]"
  "partition_records example_config (AttrTrait_T example_config) impl_attrs
     (str ''.msvc.trait.decl-attrs'') = [(9, 44), (7, 22), (7, 11)]"
  by (simp_all add: partition_records_def toc_impl_attrs blob_impl_attrs data_attrs
      summary_attrs records_at_numeral records_at_Suc records_at_0 record_at_in_blob
      sizeof_example decode_example u32_at_def bytes_attrs)

theorem trait_declaration_attributes_order_witness:
  "fst (Impl_ctor example_config blob_attrs) = Inr impl_attrs
   \<and> m_trait_declaration_attributes (m_impl \<lparr>m_env = (), m_impl = impl_attrs\<rparr>) = None
   \<and> fst (try_get_partition example_config (AttrTrait_T example_config)
            (m_impl \<lparr>m_env = (), m_impl = impl_attrs\<rparr>) (str ''trait.attribute''))
       = Inr (Some \<lparr>pdata = 4160, psize = 4\<rparr>)
   \<and> fst (try_get_partition example_config (AttrTrait_T example_config)
            (m_impl \<lparr>m_env = (), m_impl = impl_attrs\<rparr>) (str ''.msvc.trait.decl-attrs''))
       = Inr (Some \<lparr>pdata = 4192, psize = 3\<rparr>)
   \<and> partition_records example_config (AttrTrait_T example_config) impl_attrs
        (str ''trait.attribute'') = [(7, 11), (8, 33), (7, 12), (7, 11)]
   \<and> partition_records example_config (AttrTrait_T example_config) impl_attrs
        (str ''.msvc.trait.decl-attrs'') = [(9, 44), (7, 22), (7, 11)]
   \<and> (\<exists>file'. fst (File_trait_declaration_attributes example_config
                     \<lparr>m_env = (), m_impl = impl_attrs\<rparr> 7) = Inr ([11, 12, 11, 22, 11], file')
          \<and> fst (File_trait_declaration_attributes example_config file' 7)
              = Inr ([11, 12, 11, 22, 11], file')
          \<and> fst (File_trait_declaration_attributes example_config file' 8) = Inr ([33], file')
          \<and> fst (File_trait_declaration_attributes example_config file' 9) = Inr ([44], file')
          \<and> fst (File_trait_declaration_attributes example_config file' 5) = Inr ([], file'))"
proof -
  let ?file = "\<lparr>m_env = (), m_impl = impl_attrs\<rparr>"
  have a: "m_trait_declaration_attributes (m_impl ?file) = None"
    by (simp add: impl_attrs_def)
  have b: "fst (try_get_partition example_config (AttrTrait_T example_config)
            (m_impl ?file) (str ''trait.attribute'')) = Inr (Some \<lparr>pdata = 4160, psize = 4\<rparr>)"
    by (simp add: try_get_partition_attrs)
  have c: "fst (try_get_partition example_config (AttrTrait_T example_config)
            (m_impl ?file) (str ''.msvc.trait.decl-attrs''))
       = Inr (Some \<lparr>pdata = 4192, psize = 3\<rparr>)"
    by (simp add: try_get_partition_attrs)
  from trait_declaration_attributes_order [OF a b c, of 7] obtain file' where
    f: "fst (File_trait_declaration_attributes example_config ?file 7)
          = Inr ([11, 12, 11, 22, 11], file')"
    and l: "\<And>k. fst (File_trait_declaration_attributes example_config file' k) =
               Inr (map snd (filter (\<lambda>e. fst e = k) [(7, 11), (8, 33), (7, 12), (7, 11)])
                      @ map snd (filter (\<lambda>e. fst e = k)
                          [(9 :: nat, 44 :: nat), (7, 22), (7, 11)]), file')"
    by (auto simp: partition_records_attrs)
  have "fst (File_trait_declaration_attributes example_config file' 7)
          = Inr ([11, 12, 11, 22, 11], file')"
    using l [of 7] by simp
  moreover have "fst (File_trait_declaration_attributes example_config file' 8)
          = Inr ([33], file')"
    using l [of 8] by simp
  moreover have "fst (File_trait_declaration_attributes example_config file' 9)
          = Inr ([44], file')"
    using l [of 9] by simp
  moreover have "fst (File_trait_declaration_attributes example_config file' 5)
          = Inr ([], file')"
    using l [of 5] by simp
  ultimately show ?thesis
    using a b c f Impl_ctor_attrs partition_records_attrs by blast
qed

text \<open>
  Claim C6. For every file whose table of contents does not list \<open>trait.deprecated\<close>,
  \<open>trait_deprecation_texts(d)\<close> returns the null text offset for every declaration \<open>d\<close>, as
  a normal return that reads nothing from the blob: on the first query, which leaves an
  empty index, and on every later one. More generally, each of the three trait queries
  returns the value-initialised result (the null text offset, the empty span, the empty
  sequence) for a key that is not in its index.
\<close>

theorem trait_query_missing:
  "(m_table_of_contents (m_impl file) (str ''trait.deprecated'') = None
      \<and> (m_trait_deprecation_texts (m_impl file) = None
           \<or> m_trait_deprecation_texts (m_impl file) = Some Map.empty)
      \<longrightarrow> File_trait_deprecation_texts C file d =
            (Inr (0, file\<lparr>m_impl := (m_impl file)\<lparr>m_trait_deprecation_texts := Some Map.empty\<rparr>\<rparr>),
             []))
   \<and> (m k = None \<longrightarrow> get_value dflt k m = dflt)
   \<and> (fst (Impl_trait_deprecation_texts C (m_impl file)) = Inr (mt, this') \<and> mt d = None
      \<longrightarrow> fst (File_trait_deprecation_texts C file d) = Inr (0, file\<lparr>m_impl := this'\<rparr>))
   \<and> (fst (Impl_trait_declaration_attributes C (m_impl file)) = Inr (ma, this') \<and> ma d = None
      \<longrightarrow> fst (File_trait_declaration_attributes C file d) = Inr ([], file\<lparr>m_impl := this'\<rparr>))
   \<and> (fst (Impl_trait_friendship_of_class C (m_impl file)) = Inr (mf, this') \<and> mf d = None
      \<longrightarrow> fst (File_trait_friendship_of_class C file d) =
            Inr (\<lparr>seq_start = 0, seq_cardinality = 0\<rparr>, file\<lparr>m_impl := this'\<rparr>))"
proof (intro conjI impI)
  assume a: "m_table_of_contents (m_impl file) (str ''trait.deprecated'') = None
      \<and> (m_trait_deprecation_texts (m_impl file) = None
           \<or> m_trait_deprecation_texts (m_impl file) = Some Map.empty)"
  have idem: "m_trait_deprecation_texts (m_impl file) = Some Map.empty \<Longrightarrow>
      (m_impl file)\<lparr>m_trait_deprecation_texts := Some Map.empty\<rparr> = m_impl file"
    by simp
  from a show "File_trait_deprecation_texts C file d =
            (Inr (0, file\<lparr>m_impl := (m_impl file)\<lparr>m_trait_deprecation_texts := Some Map.empty\<rparr>\<rparr>),
             [])"
    by (auto simp: File_trait_deprecation_texts_def Impl_trait_deprecation_texts_def
        try_get_partition_def rd_bind_def rd_ret_def get_value_def idem)
qed (simp_all add: get_value_def File_trait_deprecation_texts_def
    File_trait_declaration_attributes_def File_trait_friendship_of_class_def
    fst_rd_bind fst_rd_ret)

theorem trait_query_missing_witness:
  "m_table_of_contents (m_impl \<lparr>m_env = (), m_impl = impl_S4\<rparr>) (str ''trait.deprecated'') = None
   \<and> m_trait_deprecation_texts (m_impl \<lparr>m_env = (), m_impl = impl_S4\<rparr>) = None
   \<and> File_trait_deprecation_texts example_config \<lparr>m_env = (), m_impl = impl_S4\<rparr> 7 =
       (Inr (0, \<lparr>m_env = (), m_impl = impl_S4\<lparr>m_trait_deprecation_texts := Some Map.empty\<rparr>\<rparr>), [])
   \<and> File_trait_deprecation_texts example_config
        \<lparr>m_env = (), m_impl = impl_S4\<lparr>m_trait_deprecation_texts := Some Map.empty\<rparr>\<rparr> 7 =
       (Inr (0, \<lparr>m_env = (), m_impl = impl_S4\<lparr>m_trait_deprecation_texts := Some Map.empty\<rparr>\<rparr>), [])
   \<and> get_value (0 :: nat) 8 [7 \<mapsto> 5] = 0"
proof -
  have a: "m_table_of_contents (m_impl \<lparr>m_env = (), m_impl = impl_S4\<rparr>)
             (str ''trait.deprecated'') = None"
    by (simp add: toc_impl_S4)
  have b: "m_trait_deprecation_texts (m_impl \<lparr>m_env = (), m_impl = impl_S4\<rparr>) = None"
    by (simp add: impl_S4_def)
  have a': "m_table_of_contents
              (m_impl \<lparr>m_env = (), m_impl = impl_S4\<lparr>m_trait_deprecation_texts := Some Map.empty\<rparr>\<rparr>)
              (str ''trait.deprecated'') = None"
    by (simp add: toc_impl_S4)
  note first = trait_query_missing [of "\<lparr>m_env = (), m_impl = impl_S4\<rparr>" example_config 7
        "[7 \<mapsto> 5]" 8 "0 :: nat", THEN conjunct1]
  note dflt = trait_query_missing [of "\<lparr>m_env = (), m_impl = impl_S4\<rparr>" example_config 7
        "[7 \<mapsto> 5]" 8 "0 :: nat", THEN conjunct2, THEN conjunct1]
  note later = trait_query_missing [of
        "\<lparr>m_env = (), m_impl = impl_S4\<lparr>m_trait_deprecation_texts := Some Map.empty\<rparr>\<rparr>"
        example_config 7, THEN conjunct1]
  show ?thesis
    using a b a' first dflt later by simp
qed

section \<open>The name map of the table of contents\<close>

lemma get_string_view_layout:
  assumes "fst (get_string_view C this t) = Inr key"
  shows "key = string_at (m_blob this) (string_table_bytes (header_of C (m_blob this)) + t)"
  using assms
  by (auto simp: get_string_view_def get_string_def fst_rd_bind fst_rd_ret header_header_of
      get_pointer_def get_raw_pointer_def c_str_def string_at_def Let_def add.assoc
      split: if_splits)

lemma map_of_emplace:
  "map_of zs ++ emplace m k v = map_of ((k, v) # zs) ++ m"
  by (rule ext) (simp add: map_add_def emplace_def split: option.splits)

lemma map_upt_Suc_shift:
  "map f [0..<Suc n] = f 0 # map (\<lambda>i. f (Suc i)) [0..<n]"
proof -
  have "[0..<Suc n] = 0 # map Suc [0..<n]"
    by (simp add: upt_conv_Cons map_Suc_upt del: upt_Suc)
  then show ?thesis
    by (simp add: comp_def del: upt_Suc)
qed

lemma fill_table_of_contents_map:
  assumes "fst (fill_table_of_contents C this p n) = Inr this'"
    and "data (m_blob this) \<le> p"
  shows "this' = this\<lparr>m_table_of_contents :=
           map_of (zip
             (map (\<lambda>d. string_at (m_blob this)
                     (string_table_bytes (header_of C (m_blob this)) + name d))
                (records_at (PartitionSummary_T C) (m_blob this) (p - data (m_blob this)) n))
             (map (\<lambda>i. p + i * sizeof (PartitionSummary_T C)) [0..<n]))
           ++ m_table_of_contents this\<rparr>"
  using assms
proof (induction n arbitrary: this p)
  case 0
  then show ?case by (simp add: fst_rd_ret records_at_def)
next
  case (Suc n)
  let ?b = "m_blob this"
  let ?sz = "sizeof (PartitionSummary_T C)"
  let ?d = "record_at (PartitionSummary_T C) ?b (p - data ?b)"
  from Suc.prems obtain key where
    k: "fst (get_string_view C this (name ?d)) = Inr key"
    and f: "fst (fill_table_of_contents C
                  (this\<lparr>m_table_of_contents := emplace (m_table_of_contents this) key p\<rparr>)
                  (p + ?sz) n) = Inr this'"
    by (auto simp: rd_bind_Inr load_obj_record_at)
  let ?this1 = "this\<lparr>m_table_of_contents := emplace (m_table_of_contents this) key p\<rparr>"
  have key: "key = string_at ?b (string_table_bytes (header_of C ?b) + name ?d)"
    using get_string_view_layout [OF k] .
  have le: "data (m_blob ?this1) \<le> p + ?sz"
    using Suc.prems(2) by simp
  have off: "p + ?sz - data ?b = (p - data ?b) + ?sz"
    using Suc.prems(2) by simp
  have ptrs: "map (\<lambda>i. p + i * ?sz) [0..<Suc n] = p # map (\<lambda>i. p + ?sz + i * ?sz) [0..<n]"
    by (simp add: map_upt_Suc_shift add.assoc del: upt_Suc)
  define zs where "zs = zip
          (map (\<lambda>d. string_at ?b (string_table_bytes (header_of C ?b) + name d))
             (records_at (PartitionSummary_T C) ?b ((p - data ?b) + ?sz) n))
          (map (\<lambda>i. p + ?sz + i * ?sz) [0..<n])"
  have z: "zip
          (map (\<lambda>d. string_at ?b (string_table_bytes (header_of C ?b) + name d))
             (records_at (PartitionSummary_T C) ?b (p - data ?b) (Suc n)))
          (map (\<lambda>i. p + i * ?sz) [0..<Suc n]) = (key, p) # zs"
    unfolding ptrs records_at_Suc zs_def key by simp
  from Suc.IH [OF f le] have
    "this' = this\<lparr>m_table_of_contents :=
        map_of zs ++ emplace (m_table_of_contents this) key p\<rparr>"
    unfolding zs_def by (simp add: off)
  also have "\<dots> = this\<lparr>m_table_of_contents :=
        map_of ((key, p) # zs) ++ m_table_of_contents this\<rparr>"
    by (simp only: map_of_emplace)
  finally show ?case
    by (simp only: z)
qed

lemma Impl_ctor_map:
  assumes "fst (Impl_ctor C blob) = Inr this"
  shows "m_table_of_contents this =
           map_of (zip (names_of C blob)
             (map (\<lambda>i. data blob + toc (header_of C blob) + i * sizeof (PartitionSummary_T C))
                [0..<partition_count (header_of C blob)]))"
proof -
  from assms table_of_contents_header_of [of C "Impl_init blob"] have
    f: "fst (fill_table_of_contents C (Impl_init blob) (data blob + toc (header_of C blob))
              (partition_count (header_of C blob))) = Inr this"
    by (auto simp: Impl_ctor_def rd_bind_Inr fst_rd_throw blob_Impl_init split: if_splits)
  have "data (m_blob (Impl_init blob)) \<le> data blob + toc (header_of C blob)"
    by (simp add: blob_Impl_init)
  from fill_table_of_contents_map [OF f this] show ?thesis
    by (simp add: blob_Impl_init names_of_def descriptors_of_def) (simp add: Impl_init_def)
qed

lemma length_names_of: "length (names_of C blob) = partition_count (header_of C blob)"
  by (simp add: names_of_def descriptors_of_def records_at_def)

text \<open>
  Claim C8. Partition names are unique within a file: for every blob the constructor
  accepts in which the names of the descriptors of the table of contents are pairwise
  distinct, the name map the constructor builds contains exactly one entry per
  descriptor, keyed by the name string of that descriptor (the string at its text offset
  in the string table) and holding the address of that descriptor; it has no other key.
\<close>

theorem toc_name_map:
  assumes "fst (Impl_ctor C blob) = Inr this"
    and "distinct (names_of C blob)"
  shows "dom (m_table_of_contents this) = set (names_of C blob)
     \<and> card (dom (m_table_of_contents this)) = partition_count (header_of C blob)
     \<and> (\<forall>i < partition_count (header_of C blob).
           m_table_of_contents this (names_of C blob ! i) =
             Some (data blob + toc (header_of C blob) + i * sizeof (PartitionSummary_T C)))"
proof -
  let ?n = "partition_count (header_of C blob)"
  let ?ps = "map (\<lambda>i. data blob + toc (header_of C blob) + i * sizeof (PartitionSummary_T C))
               [0..<?n]"
  have m: "m_table_of_contents this = map_of (zip (names_of C blob) ?ps)"
    using Impl_ctor_map [OF assms(1)] .
  have l: "length (names_of C blob) = length ?ps"
    by (simp add: length_names_of)
  have d: "dom (m_table_of_contents this) = set (names_of C blob)"
    unfolding m using l by (rule dom_map_of_zip)
  have c: "card (dom (m_table_of_contents this)) = ?n"
    using d assms(2) by (simp add: distinct_card length_names_of)
  have n: "m_table_of_contents this (names_of C blob ! i) =
             Some (data blob + toc (header_of C blob) + i * sizeof (PartitionSummary_T C))"
    if "i < ?n" for i
  proof -
    from that have "map_of (zip (names_of C blob) ?ps) (names_of C blob ! i) = Some (?ps ! i)"
      using l assms(2) by (simp add: map_of_zip_nth)
    with that show ?thesis
      by (simp add: m)
  qed
  from d c n show ?thesis by blast
qed

lemma names_of_attrs:
  "names_of example_config blob_attrs = [str ''trait.attribute'', str ''.msvc.trait.decl-attrs'']"
  by (simp add: names_of_def descriptors_of_attrs header_of_attrs string_at_def bytes_attrs
      str_def)

theorem toc_name_map_witness:
  "fst (Impl_ctor example_config blob_attrs) = Inr impl_attrs
   \<and> names_of example_config blob_attrs
       = [str ''trait.attribute'', str ''.msvc.trait.decl-attrs'']
   \<and> distinct (names_of example_config blob_attrs)
   \<and> dom (m_table_of_contents impl_attrs)
       = {str ''trait.attribute'', str ''.msvc.trait.decl-attrs''}
   \<and> card (dom (m_table_of_contents impl_attrs)) = 2
   \<and> m_table_of_contents impl_attrs (str ''trait.attribute'') = Some (4096 + 120)
   \<and> m_table_of_contents impl_attrs (str ''.msvc.trait.decl-attrs'') = Some (4096 + 120 + 16)"
proof -
  have d: "distinct (names_of example_config blob_attrs)"
    by (simp add: names_of_attrs names_attrs)
  note t = toc_name_map [OF Impl_ctor_attrs d]
  note t1 = t [THEN conjunct1]
  note t2 = t [THEN conjunct2, THEN conjunct1]
  note t3 = t [THEN conjunct2, THEN conjunct2, rule_format]
  have "dom (m_table_of_contents impl_attrs)
       = {str ''trait.attribute'', str ''.msvc.trait.decl-attrs''}"
    using t1 by (simp add: names_of_attrs)
  moreover have "card (dom (m_table_of_contents impl_attrs)) = 2"
    using t2 by (simp add: header_of_attrs)
  moreover have "m_table_of_contents impl_attrs (str ''trait.attribute'') = Some (4096 + 120)"
    using t3 [of 0] by (simp add: names_of_attrs header_of_attrs data_attrs)
  moreover have "m_table_of_contents impl_attrs (str ''.msvc.trait.decl-attrs'')
      = Some (4096 + 120 + 16)"
    using t3 [of 1] by (simp add: names_of_attrs header_of_attrs data_attrs sizeof_example)
  ultimately show ?thesis
    using Impl_ctor_attrs names_of_attrs d by simp
qed

end
